theory Spec2Isabelle
  imports Complex_Main "HOL-Library.Word"
begin

section \<open>Floating-point values\<close>

text \<open>
  The cleaning routine computes with NumPy \<open>float32\<close> samples and Python \<open>float\<close> times.
  A finite floating-point value is modelled by the rational number it denotes, and every
  floating-point operation rounds its exact result to the nearest value of the format, ties
  to even: \<open>fl p qmin\<close> rounds to \<open>p\<close> significant bits, with \<open>2 powi qmin\<close> the spacing
  of the subnormal values. Infinities and NaN are not values of the model.
\<close>

function ilog2 :: "rat \<Rightarrow> int" where
  "ilog2 x = (if x \<le> 0 then 0
              else if 2 \<le> x then ilog2 (x / 2) + 1
              else if x < 1 then ilog2 (x * 2) - 1
              else 0)"
  by pat_completeness auto
termination
proof (relation "measure (\<lambda>x. 2 * nat \<lceil>1 / x\<rceil> + nat \<lceil>x\<rceil>)")
  show "wf (measure (\<lambda>x::rat. 2 * nat \<lceil>1 / x\<rceil> + nat \<lceil>x\<rceil>))" by simp
next
  fix x :: rat
  assume a: "\<not> x \<le> 0" "2 \<le> x"
  have "\<lceil>1 / (x / 2)\<rceil> = 1" using a by (intro ceiling_unique) simp_all
  moreover have "\<lceil>1 / x\<rceil> = 1" using a by (intro ceiling_unique) simp_all
  moreover have "\<lceil>x / 2\<rceil> < \<lceil>x\<rceil>" using a by linarith
  moreover have "0 < \<lceil>x\<rceil>" using a by simp
  ultimately show "(x / 2, x) \<in> measure (\<lambda>x. 2 * nat \<lceil>1 / x\<rceil> + nat \<lceil>x\<rceil>)"
    by simp
next
  fix x :: rat
  assume a: "\<not> x \<le> 0" "\<not> 2 \<le> x" "x < 1"
  define z where "z = 1 / x"
  have inv: "1 < z" using a by (simp add: z_def)
  have half: "\<lceil>y / 2\<rceil> < \<lceil>y\<rceil>" if "2 \<le> y" for y :: rat
    using that by linarith
  have "\<lceil>z / 2\<rceil> < \<lceil>z\<rceil>"
  proof (cases "2 \<le> z")
    case True
    then show ?thesis by (rule half)
  next
    case False
    have "0 < z / 2" using inv by linarith
    moreover have "z / 2 \<le> 1" using False by linarith
    ultimately have "\<lceil>z / 2\<rceil> = 1" by (intro ceiling_unique) simp_all
    moreover have "1 < \<lceil>z\<rceil>" using inv by (simp add: less_ceiling_iff)
    ultimately show ?thesis by simp
  qed
  then have c1: "\<lceil>1 / (x * 2)\<rceil> < \<lceil>1 / x\<rceil>" by (simp add: z_def)
  have c2: "\<lceil>x\<rceil> = 1" using a by (intro ceiling_unique) simp_all
  have c3: "\<lceil>x * 2\<rceil> \<le> 2" using a by (simp add: ceiling_le_iff)
  have c4: "0 < \<lceil>1 / x\<rceil>" using a by simp
  show "(x * 2, x) \<in> measure (\<lambda>x. 2 * nat \<lceil>1 / x\<rceil> + nat \<lceil>x\<rceil>)"
    using c1 c2 c3 c4 by simp linarith
qed

declare ilog2.simps [simp del]

text \<open>Round to the nearest integer, ties to the even one (Python's \<open>round\<close> on a float).\<close>

definition round_half_even :: "rat \<Rightarrow> int" where
  "round_half_even x =
     (let f = \<lfloor>x\<rfloor>; d = x - of_int f
      in if d < 1 / 2 then f else if 1 / 2 < d then f + 1 else if even f then f else f + 1)"

definition fl :: "nat \<Rightarrow> int \<Rightarrow> rat \<Rightarrow> rat" where
  "fl p qmin x =
     (if x = 0 then 0
      else let q = max (ilog2 \<bar>x\<bar> - (int p - 1)) qmin
           in of_int (round_half_even (x / 2 powi q)) * 2 powi q)"

text \<open>NumPy \<open>float32\<close>: 24 significant bits. Python \<open>float\<close>: 53.\<close>

definition fl32 :: "rat \<Rightarrow> rat" where
  "fl32 = fl 24 (- 149)"

definition fl64 :: "rat \<Rightarrow> rat" where
  "fl64 = fl 53 (- 1074)"

text \<open>
  Conversion of a float to an integer discards the fractional part (the C cast behind
  \<open>np.int16\<close>, and Python's \<open>int\<close>).
\<close>

definition trunc_zero :: "rat \<Rightarrow> int" where
  "trunc_zero x = (if 0 \<le> x then \<lfloor>x\<rfloor> else \<lceil>x\<rceil>)"

section \<open>Conversion of the samples to 16 bits\<close>

text \<open>
  \<^verbatim>\<open>audio_data_int16 = np.int16(audio_data * 32767)\<close>

  \<open>audio_data\<close> is a \<open>float32\<close> array, so the product is a \<open>float32\<close> array. The
  conversion to \<open>int16\<close> truncates and keeps the low 16 bits of the truncated value; that is
  what NumPy does for a product below \<open>2 ^ 31\<close> in magnitude, and beyond that magnitude its
  result depends on the platform.
\<close>

definition np_int16 :: "rat \<Rightarrow> 16 word" where
  "np_int16 x = word_of_int (trunc_zero x)"

definition sample_int16 :: "rat \<Rightarrow> 16 word" where
  "sample_int16 s = np_int16 (fl32 (s * 32767))"

definition audio_data_int16 :: "rat list \<Rightarrow> 16 word list" where
  "audio_data_int16 audio_data = map sample_int16 audio_data"

section \<open>The audio segment\<close>

text \<open>
  The routine wraps the samples in a \<open>pydub.AudioSegment\<close> with \<open>sample_width=2\<close> and
  \<open>channels=1\<close>, so a frame is one 16-bit sample and the byte offsets of the library are
  twice the frame offsets used here.
\<close>

datatype exn =
    ZeroDivisionError
  | IndexError
  | KeyError string
  | ValueError
  | TooManyMissingFrames int
  | FileNotFoundError
  | Raised string

record audio_segment =
  seg_data :: "16 word list"
  frame_rate :: int

text \<open>\<^verbatim>\<open>len(seg)\<close>: the duration in milliseconds,
  \<^verbatim>\<open>round(1000 * (self.frame_count() / self.frame_rate))\<close>.\<close>

definition seg_len :: "audio_segment \<Rightarrow> exn + int" where
  "seg_len seg =
     (if frame_rate seg = 0 then Inl ZeroDivisionError
      else Inr (round_half_even
             (fl64 (1000 * fl64 (fl64 (of_nat (length (seg_data seg)))
                                   / fl64 (of_int (frame_rate seg)))))))"

text \<open>\<^verbatim>\<open>frame_count(ms)\<close>: \<^verbatim>\<open>ms * (self.frame_rate / 1000.0)\<close>.\<close>

definition frame_count_ms :: "audio_segment \<Rightarrow> rat \<Rightarrow> rat" where
  "frame_count_ms seg ms = fl64 (ms * fl64 (fl64 (of_int (frame_rate seg)) / 1000))"

text \<open>
  \<^verbatim>\<open>_parse_position(val)\<close>: a negative position counts from the end, and the frame
  offset is \<^verbatim>\<open>int(self.frame_count(ms=val))\<close>.
\<close>

definition parse_position :: "audio_segment \<Rightarrow> int \<Rightarrow> rat \<Rightarrow> int" where
  "parse_position seg len val =
     trunc_zero (frame_count_ms seg
       (if val < 0 then fl64 (fl64 (of_int len) - \<bar>val\<bar>) else val))"

text \<open>Python's \<^verbatim>\<open>xs[i:j]\<close>, for any integers \<open>i\<close> and \<open>j\<close>.\<close>

definition py_index :: "nat \<Rightarrow> int \<Rightarrow> nat" where
  "py_index n k = (if k < 0 then nat (max (int n + k) 0) else min (nat k) n)"

definition py_slice :: "'a list \<Rightarrow> int \<Rightarrow> int \<Rightarrow> 'a list" where
  "py_slice xs i j =
     (let s = py_index (length xs) i; e = py_index (length xs) j
      in take (e - s) (drop s xs))"

text \<open>\<^verbatim>\<open>min(start, len(self))\<close>, the second argument an integer.\<close>

definition min_len :: "rat \<Rightarrow> int \<Rightarrow> rat" where
  "min_len t len = (if of_int len < t then fl64 (of_int len) else t)"

text \<open>
  \<^verbatim>\<open>seg[start:end]\<close> with both bounds given, in milliseconds: the bounds are capped at
  the duration, converted to frame offsets, and the frames between them are returned, padded
  with silence where the data is shorter than the offsets ask for.
\<close>

definition getitem_slice :: "audio_segment \<Rightarrow> rat \<Rightarrow> rat \<Rightarrow> exn + audio_segment" where
  "getitem_slice seg start_ms end_ms =
     (case seg_len seg of
        Inl e \<Rightarrow> Inl e
      | Inr len \<Rightarrow>
          (let start = parse_position seg len (min_len start_ms len);
               end = parse_position seg len (min_len end_ms len);
               data = py_slice (seg_data seg) start end;
               missing_frames = (end - start) - int (length data)
           in if missing_frames \<noteq> 0 then
                (if frame_count_ms seg 2 < of_int missing_frames
                 then Inl (TooManyMissingFrames missing_frames)
                 else Inr (seg\<lparr>seg_data := data @
                        concat (replicate (nat missing_frames) (map (\<lambda>_. 0) (take 1 data)))\<rparr>))
              else Inr (seg\<lparr>seg_data := data\<rparr>)))"

section \<open>Paths\<close>

text \<open>
  A path is the list of its components. \<open>os.walk\<close> yields each directory as the top
  directory extended by the components below it, and the file names it yields are single
  components.
\<close>

type_synonym path = "string list"

definition join :: "path \<Rightarrow> path \<Rightarrow> path" where
  "join a b = a @ b"

definition dirname :: "path \<Rightarrow> path" where
  "dirname p = butlast p"

fun common_len :: "path \<Rightarrow> path \<Rightarrow> nat" where
  "common_len (a # as) (b # bs) = (if a = b then Suc (common_len as bs) else 0)"
| "common_len _ _ = 0"

text \<open>\<^verbatim>\<open>os.path.relpath(p, start)\<close>: up from \<open>start\<close> to the common ancestor, then down
  to \<open>p\<close>.\<close>

definition relpath :: "path \<Rightarrow> path \<Rightarrow> path" where
  "relpath p start =
     (let i = common_len start p;
          rel = replicate (length start - i) ''..'' @ drop i p
      in if rel = [] then [''.''] else rel)"

text \<open>\<^verbatim>\<open>filename.lower().endswith(file_ext.lower())\<close>, on ASCII letters.\<close>

definition lower_char :: "char \<Rightarrow> char" where
  "lower_char c =
     (if 65 \<le> (of_char c :: nat) \<and> (of_char c :: nat) \<le> 90
      then char_of ((of_char c :: nat) + 32) else c)"

definition lower :: "string \<Rightarrow> string" where
  "lower s = map lower_char s"

definition endswith :: "string \<Rightarrow> string \<Rightarrow> bool" where
  "endswith s suf = (length suf \<le> length s \<and> drop (length s - length suf) s = suf)"

section \<open>The batch\<close>

text \<open>
  A speech segment of the detector (\<open>pyannote.core.Segment\<close>), and the timeline
  \<^verbatim>\<open>vad_result.get_timeline()\<close> as the list of its segments in order.
\<close>

record segment =
  seg_start :: rat
  seg_end :: rat

text \<open>Python's \<^verbatim>\<open>xs[i]\<close>: a negative index counts from the end.\<close>

definition getitem :: "'a list \<Rightarrow> int \<Rightarrow> exn + 'a" where
  "getitem xs i =
     (if 0 \<le> i \<and> i < int (length xs) then Inr (xs ! nat i)
      else if i < 0 \<and> - int (length xs) \<le> i then Inr (xs ! nat (int (length xs) + i))
      else Inl IndexError)"

text \<open>
  Step 5, the trim window in seconds:
  \<^verbatim>\<open>earliest_start = speech_timeline[0].start\<close>,
  \<^verbatim>\<open>latest_end = speech_timeline[-1].end\<close>.
\<close>

definition trim_window :: "segment list \<Rightarrow> exn + (rat \<times> rat)" where
  "trim_window speech_timeline =
     (case getitem speech_timeline 0 of
        Inl e \<Rightarrow> Inl e
      | Inr first \<Rightarrow>
          (case getitem speech_timeline (- 1) of
             Inl e \<Rightarrow> Inl e
           | Inr final \<Rightarrow> Inr (seg_start first, seg_end final)))"

text \<open>
  What the routine does not compute itself is read from an environment: the directories
  below the input directory in the order of the walk with the file names of each, and for
  each external call whether it raises and what it returns; \<open>print\<close> is one of them, it
  raises when a line cannot be written to the standard output. The exceptions are those
  deriving from \<open>Exception\<close>.
\<close>

text \<open>The lines the routine prints.\<close>

datatype line =
    No_speech_found path
  | Error_processing path exn

text \<open>Both lines hold the input path of the file they are about.\<close>

definition names_path :: "path \<Rightarrow> line \<Rightarrow> bool" where
  "names_path input_path l =
     (case l of No_speech_found p \<Rightarrow> p = input_path | Error_processing p e \<Rightarrow> p = input_path)"

record env =
  model_init :: "exn option"
  tree :: "(path \<times> string list) list"
  makedirs_raises :: "path \<Rightarrow> exn option"
  librosa_load :: "path \<Rightarrow> exn + (rat list \<times> int)"
  vad :: "rat \<Rightarrow> rat \<Rightarrow> path \<Rightarrow> exn + segment list"
  export_raises :: "path \<Rightarrow> exn option"
  print_raises :: "line \<Rightarrow> exn option"

text \<open>The output side: the directories that exist, the files written, the lines printed.\<close>

record world =
  dirs :: "path set"
  files :: "path \<rightharpoonup> audio_segment"
  printed :: "line list"

definition print :: "env \<Rightarrow> line \<Rightarrow> world \<Rightarrow> exn + world" where
  "print E l w =
     (case print_raises E l of
        Some e \<Rightarrow> Inl e
      | None \<Rightarrow> Inr (w\<lparr>printed := printed w @ [l]\<rparr>))"

text \<open>\<^verbatim>\<open>os.makedirs(d, exist_ok=True)\<close>: the directory and its missing ancestors are
  created; the empty path is refused.\<close>

definition makedirs :: "env \<Rightarrow> path \<Rightarrow> world \<Rightarrow> exn + world" where
  "makedirs E d w =
     (if d = [] then Inl FileNotFoundError
      else case makedirs_raises E d of
             Some e \<Rightarrow> Inl e
           | None \<Rightarrow>
               Inr (w\<lparr>dirs := dirs w \<union> set (map (\<lambda>k. take k d) [1 ..< Suc (length d)])\<rparr>))"

text \<open>
  \<^verbatim>\<open>trimmed_segment.export(output_path, format="wav")\<close>: the file is opened for writing,
  which fails when its directory does not exist.
\<close>

definition export :: "env \<Rightarrow> audio_segment \<Rightarrow> path \<Rightarrow> world \<Rightarrow> exn + world" where
  "export E seg p w =
     (if dirname p \<noteq> [] \<and> dirname p \<notin> dirs w then Inl FileNotFoundError
      else case export_raises E p of
             Some e \<Rightarrow> Inl e
           | None \<Rightarrow> Inr (w\<lparr>files := (files w)(p \<mapsto> seg)\<rparr>))"

text \<open>Steps 3 to 7, the body of the \<^verbatim>\<open>try\<close>.\<close>

definition try_body ::
  "env \<Rightarrow> rat \<Rightarrow> rat \<Rightarrow> path \<Rightarrow> path \<Rightarrow> world \<Rightarrow> exn + world" where
  "try_body E min_duration_on min_duration_off input_path output_path w =
     (case librosa_load E input_path of
        Inl e \<Rightarrow> Inl e
      | Inr (audio_data, sr) \<Rightarrow>
          (let full_audio_segment =
                 \<lparr>seg_data = audio_data_int16 audio_data, frame_rate = sr\<rparr>
           in case vad E min_duration_on min_duration_off input_path of
                Inl e \<Rightarrow> Inl e
              | Inr speech_timeline \<Rightarrow>
                  (if length speech_timeline = 0
                   then print E (No_speech_found input_path) w
                   else
                     (case trim_window speech_timeline of
                        Inl e \<Rightarrow> Inl e
                      | Inr (earliest_start, latest_end) \<Rightarrow>
                          (let start_ms = fl64 (earliest_start * 1000);
                               end_ms = fl64 (latest_end * 1000)
                           in case getitem_slice full_audio_segment start_ms end_ms of
                                Inl e \<Rightarrow> Inl e
                              | Inr trimmed_segment \<Rightarrow>
                                  export E trimmed_segment output_path w)))))"

text \<open>
  One qualifying file: the paths, the output directory, then the \<^verbatim>\<open>try\<close> and its
  handler, which prints the error line. \<open>Inl\<close> is an exception that leaves the loop.
\<close>

definition output_path_of :: "path \<Rightarrow> path \<Rightarrow> path \<Rightarrow> path" where
  "output_path_of input_dir output_dir input_path =
     (let rel_path = relpath input_path input_dir in join output_dir rel_path)"

definition process_file ::
  "env \<Rightarrow> path \<Rightarrow> path \<Rightarrow> rat \<Rightarrow> rat \<Rightarrow> path \<Rightarrow> string \<Rightarrow> world \<Rightarrow> exn + world" where
  "process_file E input_dir output_dir min_duration_on min_duration_off root_dir filename w =
     (let input_path = join root_dir [filename];
          output_path = output_path_of input_dir output_dir input_path
      in case makedirs E (dirname output_path) w of
           Inl e \<Rightarrow> Inl e
         | Inr w1 \<Rightarrow>
             (case try_body E min_duration_on min_duration_off input_path output_path w1 of
                Inl e \<Rightarrow> print E (Error_processing input_path e) w1
              | Inr w2 \<Rightarrow> Inr w2))"

fun files_loop ::
  "env \<Rightarrow> path \<Rightarrow> path \<Rightarrow> rat \<Rightarrow> rat \<Rightarrow> string \<Rightarrow> path \<Rightarrow> string list \<Rightarrow> world
     \<Rightarrow> exn + world" where
  "files_loop E input_dir output_dir mon moff file_ext root_dir [] w = Inr w"
| "files_loop E input_dir output_dir mon moff file_ext root_dir (filename # rest) w =
     (if endswith (lower filename) (lower file_ext)
      then case process_file E input_dir output_dir mon moff root_dir filename w of
             Inl e \<Rightarrow> Inl e
           | Inr w' \<Rightarrow> files_loop E input_dir output_dir mon moff file_ext root_dir rest w'
      else files_loop E input_dir output_dir mon moff file_ext root_dir rest w)"

fun walk_loop ::
  "env \<Rightarrow> path \<Rightarrow> path \<Rightarrow> rat \<Rightarrow> rat \<Rightarrow> string \<Rightarrow> (path \<times> string list) list \<Rightarrow> world
     \<Rightarrow> exn + world" where
  "walk_loop E input_dir output_dir mon moff file_ext [] w = Inr w"
| "walk_loop E input_dir output_dir mon moff file_ext ((root_dir, fs) # rest) w =
     (case files_loop E input_dir output_dir mon moff file_ext root_dir fs w of
        Inl e \<Rightarrow> Inl e
      | Inr w' \<Rightarrow> walk_loop E input_dir output_dir mon moff file_ext rest w')"

definition os_walk :: "env \<Rightarrow> path \<Rightarrow> (path \<times> string list) list" where
  "os_walk E input_dir = map (\<lambda>(sub, fs). (join input_dir sub, fs)) (tree E)"

definition trim_with_vad ::
  "env \<Rightarrow> path \<Rightarrow> path \<Rightarrow> rat \<Rightarrow> rat \<Rightarrow> string \<Rightarrow> world \<Rightarrow> exn + world" where
  "trim_with_vad E input_dir output_dir min_duration_on min_duration_off file_ext w =
     (case model_init E of
        Some e \<Rightarrow> Inl e
      | None \<Rightarrow>
          walk_loop E input_dir output_dir min_duration_on min_duration_off file_ext
            (os_walk E input_dir) w)"

subsection \<open>A small input tree\<close>

text \<open>
  One directory \<open>spk\<close> below the input directory \<open>in\<close>, holding three recordings of 16
  samples at 8000 Hz and a text file. The detector finds no speech in \<open>a.wav\<close>, \<open>b.wav\<close>
  cannot be decoded, and in \<open>c.WAV\<close> speech runs from \<open>1/1024\<close> s to \<open>1/512\<close> s.
\<close>

definition tone :: "rat list" where
  "tone = [0, 1 / 4, 1 / 2, 3 / 4, 1, 3 / 4, 1 / 2, 1 / 4,
           0, - 1 / 4, - 1 / 2, - 3 / 4, - 1, - 3 / 4, - 1 / 2, - 1 / 4]"

definition corpus :: env where
  "corpus =
     \<lparr>model_init = None,
      tree = [([''spk''], [''a.wav'', ''b.wav'', ''c.WAV'', ''notes.txt''])],
      makedirs_raises = (\<lambda>d. None),
      librosa_load = (\<lambda>p. if p = [''in'', ''spk'', ''b.wav'']
                          then Inl (Raised ''corrupt file'') else Inr (tone, 8000)),
      vad = (\<lambda>mon moff p. if p = [''in'', ''spk'', ''a.wav''] then Inr []
                           else Inr [\<lparr>seg_start = 1 / 1024, seg_end = 1 / 512\<rparr>]),
      export_raises = (\<lambda>p. None),
      print_raises = (\<lambda>l. None)\<rparr>"

definition empty_world :: world where
  "empty_world = \<lparr>dirs = {}, files = Map.empty, printed = []\<rparr>"


text \<open>The same tree with \<open>a.wav\<close> alone in its directory.\<close>

definition quiet_corpus :: env where
  "quiet_corpus = corpus\<lparr>tree := [([''spk''], [''a.wav''])]\<rparr>"

text \<open>The same tree when nothing can be written to the standard output.\<close>

definition mute_corpus :: env where
  "mute_corpus = corpus\<lparr>print_raises := (\<lambda>l. Some (Raised ''UnicodeEncodeError''))\<rparr>"


text \<open>
  A file is accounted for when its output file exists or a printed line, the notice or an
  error line, names its input path. A later state keeps an earlier one when no file and no
  line of the earlier one is lost.
\<close>

definition keeps :: "world \<Rightarrow> world \<Rightarrow> bool" where
  "keeps w w' =
     ((\<forall>p. files w p \<noteq> None \<longrightarrow> files w' p \<noteq> None) \<and> set (printed w) \<subseteq> set (printed w'))"

definition accounted_for :: "world \<Rightarrow> path \<Rightarrow> path \<Rightarrow> bool" where
  "accounted_for w input_path output_path =
     (files w output_path \<noteq> None \<or> list_ex (names_path input_path) (printed w))"

text \<open>The recording of the tree as an audio segment.\<close>

definition tone_segment :: audio_segment where
  "tone_segment = \<lparr>seg_data = audio_data_int16 tone, frame_rate = 8000\<rparr>"

subsection \<open>What the specification says of slicing\<close>

text \<open>
  The specification's slicing rule: a boundary time \<open>t\<close> in seconds becomes the frame
  offset \<open>round(t \<times> frame_rate)\<close>, and the slice is the frames from the start offset up
  to the end offset.
\<close>

definition spec_offset :: "audio_segment \<Rightarrow> rat \<Rightarrow> int" where
  "spec_offset seg t = round_half_even (t * of_int (frame_rate seg))"

definition spec_slice :: "audio_segment \<Rightarrow> rat \<Rightarrow> rat \<Rightarrow> 16 word list" where
  "spec_slice seg start_seconds end_seconds =
     take (nat (spec_offset seg end_seconds - spec_offset seg start_seconds))
       (drop (nat (spec_offset seg start_seconds)) (seg_data seg))"

section \<open>The metadata loader\<close>

text \<open>
  A data frame is the list of its column names and the list of its rows; a row maps a column
  name to the cell in it, and a missing cell (NaN) is \<open>None\<close>.
\<close>

type_synonym row = "string \<rightharpoonup> string"

record dataframe =
  columns :: "string list"
  rows :: "row list"

text \<open>\<^verbatim>\<open>df_part["source_file"] = filename\<close>\<close>

definition set_source_file :: "string \<Rightarrow> dataframe \<Rightarrow> dataframe" where
  "set_source_file filename df =
     \<lparr>columns = (if ''source_file'' \<in> set (columns df) then columns df
                  else columns df @ [''source_file'']),
      rows = map (\<lambda>r. r(''source_file'' \<mapsto> filename)) (rows df)\<rparr>"

text \<open>\<^verbatim>\<open>pd.concat(dfs, ignore_index=True)\<close>\<close>

definition pd_concat :: "dataframe list \<Rightarrow> dataframe" where
  "pd_concat dfs =
     \<lparr>columns = rev (remdups (rev (concat (map columns dfs)))),
      rows = concat (map rows dfs)\<rparr>"

text \<open>
  \<^verbatim>\<open>durations_df.columns = ["path", "duration_ms"]\<close>: the two columns are renamed by
  position, and a table of another width is refused.
\<close>

definition rename_durations :: "dataframe \<Rightarrow> exn + dataframe" where
  "rename_durations df =
     (case columns df of
        [c1, c2] \<Rightarrow>
          Inr \<lparr>columns = [''path'', ''duration_ms''],
               rows = map (\<lambda>r. (Map.empty :: row)(''duration_ms'' := r c2, ''path'' := r c1))
                        (rows df)\<rparr>
      | _ \<Rightarrow> Inl ValueError)"

text \<open>
  \<^verbatim>\<open>pd.merge(combined_df, durations_df, on="path", how="left")\<close>: every row of the left
  table, in order, once for each row of the right table with the same \<open>path\<close> and once
  alone when there is none. A \<open>duration_ms\<close> column of the left table is kept apart by the
  suffixes \<open>_x\<close> and \<open>_y\<close>.
\<close>

definition merge_row :: "string \<Rightarrow> string \<Rightarrow> row \<Rightarrow> row list \<Rightarrow> row list" where
  "merge_row lcol rcol l ds =
     (let l' = (if lcol = ''duration_ms'' then l
                else l(''duration_ms'' := None, lcol := l ''duration_ms''));
          ms = filter (\<lambda>d. d ''path'' = l ''path'') ds
      in if ms = [] then [l'(rcol := None)]
         else map (\<lambda>d. l'(rcol := d ''duration_ms'')) ms)"

definition pd_merge :: "dataframe \<Rightarrow> dataframe \<Rightarrow> exn + dataframe" where
  "pd_merge left right =
     (if ''path'' \<notin> set (columns left) then Inl (KeyError ''path'')
      else
        (let clash = (''duration_ms'' \<in> set (columns left));
             lcol = (if clash then ''duration_ms_x'' else ''duration_ms'');
             rcol = (if clash then ''duration_ms_y'' else ''duration_ms'')
         in Inr \<lparr>columns = map (\<lambda>c. if c = ''duration_ms'' then lcol else c) (columns left)
                             @ [rcol],
                  rows = concat (map (\<lambda>l. merge_row lcol rcol l (rows right)) (rows left))\<rparr>))"

text \<open>\<^verbatim>\<open>combined_df.drop_duplicates(subset="path")\<close>: a row is dropped when an earlier
  row has the same \<open>path\<close>.\<close>

fun keep_first :: "string option list \<Rightarrow> row list \<Rightarrow> row list" where
  "keep_first seen [] = []"
| "keep_first seen (r # rs) =
     (if r ''path'' \<in> set seen then keep_first seen rs
      else r # keep_first (r ''path'' # seen) rs)"

definition drop_duplicates :: "dataframe \<Rightarrow> exn + dataframe" where
  "drop_duplicates df =
     (if ''path'' \<notin> set (columns df) then Inl (KeyError ''path'')
      else Inr (df\<lparr>rows := keep_first [] (rows df)\<rparr>))"

text \<open>
  The files and the services the loader uses: \<open>read_csv\<close> is \<open>None\<close> where
  \<open>os.path.isfile\<close> is false and otherwise what \<open>pd.read_csv\<close> raises or returns, and
  \<open>to_csv\<close> is the text written for a table.
\<close>

record loader_env =
  wandb_init :: "exn option"
  read_csv :: "path \<Rightarrow> (exn + dataframe) option"
  makedirs_output :: "exn option"
  to_csv :: "dataframe \<Rightarrow> exn + string"
  log_artifact_raises :: "exn option"

record data_loader =
  self_input_dir :: path
  self_output_dir :: path

record artifact =
  art_name :: string
  art_type :: string
  art_file :: path
  file_path :: path
  size_bytes :: nat
  num_rows :: nat

datatype outcome =
    No_tables
  | Saved path dataframe artifact

definition files_to_include :: "string list" where
  "files_to_include = [''train.tsv'', ''test.tsv'', ''dev.tsv'', ''validated.tsv'', ''other.tsv'']"

text \<open>Step 2, the loop over \<open>files_to_include\<close>.\<close>

fun gather :: "loader_env \<Rightarrow> path \<Rightarrow> string list \<Rightarrow> exn + dataframe list" where
  "gather E dir [] = Inr []"
| "gather E dir (filename # rest) =
     (case read_csv E (join dir [filename]) of
        None \<Rightarrow> gather E dir rest
      | Some (Inl e) \<Rightarrow> Inl e
      | Some (Inr df_part) \<Rightarrow>
          (case gather E dir rest of
             Inl e \<Rightarrow> Inl e
           | Inr dfs \<Rightarrow> Inr (set_source_file filename df_part # dfs)))"

text \<open>Step 3, the optional merge with \<open>clip_durations.tsv\<close>.\<close>

definition merge_durations :: "loader_env \<Rightarrow> path \<Rightarrow> dataframe \<Rightarrow> exn + dataframe" where
  "merge_durations E dir combined_df =
     (case read_csv E (join dir [''clip_durations.tsv'']) of
        None \<Rightarrow> Inr combined_df
      | Some (Inl e) \<Rightarrow> Inl e
      | Some (Inr durations_df) \<Rightarrow>
          (case rename_durations durations_df of
             Inl e \<Rightarrow> Inl e
           | Inr d \<Rightarrow> pd_merge combined_df d))"

text \<open>Steps 5 and 6: the table is written and the artifact is logged with its metadata.\<close>

definition save_and_log :: "loader_env \<Rightarrow> path \<Rightarrow> dataframe \<Rightarrow> exn + outcome" where
  "save_and_log E out_dir combined_df =
     (case makedirs_output E of
        Some e \<Rightarrow> Inl e
      | None \<Rightarrow>
          (let out_path = join out_dir [''complete_data.tsv'']
           in case to_csv E combined_df of
                Inl e \<Rightarrow> Inl e
              | Inr written \<Rightarrow>
                  (let file_size = length written;
                       n = length (rows combined_df);
                       a = \<lparr>art_name = ''data_loading'', art_type = ''dataset'',
                            art_file = out_path, file_path = out_path,
                            size_bytes = file_size, num_rows = n\<rparr>
                   in case log_artifact_raises E of
                        Some e \<Rightarrow> Inl e
                      | None \<Rightarrow> Inr (Saved out_path combined_df a))))"

definition run :: "loader_env \<Rightarrow> data_loader \<Rightarrow> exn + outcome" where
  "run E self =
     (case wandb_init E of
        Some e \<Rightarrow> Inl e
      | None \<Rightarrow>
          (case gather E (self_input_dir self) files_to_include of
             Inl e \<Rightarrow> Inl e
           | Inr dfs \<Rightarrow>
               (if dfs = [] then Inr No_tables
                else
                  (case merge_durations E (self_input_dir self) (pd_concat dfs) of
                     Inl e \<Rightarrow> Inl e
                   | Inr merged \<Rightarrow>
                       (case drop_duplicates merged of
                          Inl e \<Rightarrow> Inl e
                        | Inr combined_df \<Rightarrow> save_and_log E (self_output_dir self) combined_df)))))"

subsection \<open>The row the consolidator should keep\<close>

text \<open>
  The row with a given \<open>path\<close> in the earliest file of the sequence that is present and
  holds such a row, and the earliest such row within that file, with the name of the file.
\<close>

fun earliest_row ::
  "loader_env \<Rightarrow> path \<Rightarrow> string list \<Rightarrow> string option \<Rightarrow> (string \<times> row) option" where
  "earliest_row E dir [] p = None"
| "earliest_row E dir (filename # rest) p =
     (case read_csv E (join dir [filename]) of
        Some (Inr df_part) \<Rightarrow>
          (case find (\<lambda>r. r ''path'' = p) (rows df_part) of
             Some r \<Rightarrow> Some (filename, r)
           | None \<Rightarrow> earliest_row E dir rest p)
      | _ \<Rightarrow> earliest_row E dir rest p)"

subsection \<open>A small corpus of tables\<close>

text \<open>
  \<open>train.tsv\<close> and \<open>dev.tsv\<close> are present and both hold the clip \<open>a.mp3\<close>;
  \<open>clip_durations.tsv\<close> holds two durations for it.
\<close>

definition shelf :: loader_env where
  "shelf =
     \<lparr>wandb_init = None,
      read_csv = (\<lambda>p.
        if p = [''cv'', ''train.tsv''] then
          Some (Inr \<lparr>columns = [''path'', ''sentence''],
                      rows = [[''path'' \<mapsto> ''a.mp3'', ''sentence'' \<mapsto> ''one''],
                              [''path'' \<mapsto> ''b.mp3'', ''sentence'' \<mapsto> ''two'']]\<rparr>)
        else if p = [''cv'', ''dev.tsv''] then
          Some (Inr \<lparr>columns = [''path'', ''sentence''],
                      rows = [[''path'' \<mapsto> ''a.mp3'', ''sentence'' \<mapsto> ''uno''],
                              [''path'' \<mapsto> ''c.mp3'', ''sentence'' \<mapsto> ''three'']]\<rparr>)
        else if p = [''cv'', ''clip_durations.tsv''] then
          Some (Inr \<lparr>columns = [''clip'', ''duration''],
                      rows = [[''clip'' \<mapsto> ''a.mp3'', ''duration'' \<mapsto> ''1000''],
                              [''clip'' \<mapsto> ''a.mp3'', ''duration'' \<mapsto> ''1001''],
                              [''clip'' \<mapsto> ''c.mp3'', ''duration'' \<mapsto> ''3000'']]\<rparr>)
        else None),
      makedirs_output = None,
      to_csv = (\<lambda>df. Inr (concat (map (\<lambda>r. case r ''path'' of None \<Rightarrow> ''-''
                                                       | Some p \<Rightarrow> p) (rows df)))),
      log_artifact_raises = None\<rparr>"

definition shelf_loader :: data_loader where
  "shelf_loader = \<lparr>self_input_dir = [''cv''], self_output_dir = [''out'']\<rparr>"

section \<open>Properties of the cleaning routine\<close>

subsection \<open>Indexing, directories, paths\<close>

lemma getitem_first: "xs \<noteq> [] \<Longrightarrow> getitem xs 0 = Inr (hd xs)"
  by (cases xs) (simp_all add: getitem_def)

lemma getitem_last: "xs \<noteq> [] \<Longrightarrow> getitem xs (- 1) = Inr (last xs)"
  by (cases xs) (simp_all add: getitem_def last_conv_nth nat_diff_distrib')

lemma makedirs_files:
  "makedirs E d w = Inr w1 \<Longrightarrow> files w1 = files w \<and> printed w1 = printed w"
  by (auto simp: makedirs_def split: if_splits option.splits)

lemma makedirs_dirs:
  assumes "makedirs E d w = Inr w1"
  shows "d \<in> dirs w1"
proof -
  from assms have ne: "d \<noteq> []" and w1: "w1 = w\<lparr>dirs := dirs w \<union> set (map (\<lambda>k. take k d) [1 ..< Suc (length d)])\<rparr>"
    by (auto simp: makedirs_def split: if_splits option.splits)
  have "length d \<in> set [1 ..< Suc (length d)]" using ne by (cases d) simp_all
  then have "take (length d) d \<in> (\<lambda>k. take k d) ` set [1 ..< Suc (length d)]"
    by (rule imageI)
  then show ?thesis by (simp add: w1)
qed

lemma makedirs_returns:
  "d \<noteq> [] \<Longrightarrow> makedirs_raises E d = None \<Longrightarrow> \<exists>w1. makedirs E d w = Inr w1"
  by (simp add: makedirs_def)

lemma common_len_append: "common_len a (a @ b) = length a"
  by (induction a) simp_all

lemma relpath_below: "relpath (join (join input_dir sub) [filename]) input_dir = sub @ [filename]"
  by (simp add: relpath_def join_def common_len_append)

lemma output_path_below:
  "output_path_of input_dir output_dir (join (join input_dir sub) [filename])
     = join output_dir (sub @ [filename])"
  by (simp add: output_path_of_def relpath_below)



subsection \<open>What one file leaves behind\<close>




lemma print_effect:
  "print E l w = Inr w' \<Longrightarrow> w' = w\<lparr>printed := printed w @ [l]\<rparr>"
  by (auto simp: print_def split: option.splits)

lemma print_returns:
  "print_raises E l = None \<Longrightarrow> print E l w = Inr (w\<lparr>printed := printed w @ [l]\<rparr>)"
  by (simp add: print_def)

lemma export_effect:
  "export E seg p w = Inr w' \<Longrightarrow> w' = w\<lparr>files := (files w)(p \<mapsto> seg)\<rparr>"
  by (auto simp: export_def split: if_splits option.splits)

lemma try_body_cases:
  assumes "try_body E mon moff ip op w1 = Inr w2"
  shows "w2 = w1\<lparr>printed := printed w1 @ [No_speech_found ip]\<rparr>
       \<or> (\<exists>seg. w2 = w1\<lparr>files := (files w1)(op \<mapsto> seg)\<rparr>)"
  using assms
  by (auto simp: try_body_def Let_def
           split: sum.splits prod.splits if_splits dest: print_effect export_effect)

lemma try_body_effect:
  assumes "try_body E mon moff ip op w1 = Inr w2"
  shows "dirs w2 = dirs w1" and "\<forall>p. p \<noteq> op \<longrightarrow> files w2 p = files w1 p"
    and "keeps w1 w2" and "accounted_for w2 ip op"
  using try_body_cases [OF assms]
  by (auto simp: keeps_def accounted_for_def names_path_def)

lemma process_file_cases:
  assumes "process_file E input_dir output_dir mon moff root_dir filename w = Inr w'"
  shows "\<exists>w1. makedirs E (dirname (output_path_of input_dir output_dir (join root_dir [filename]))) w
                 = Inr w1
             \<and> (try_body E mon moff (join root_dir [filename])
                   (output_path_of input_dir output_dir (join root_dir [filename])) w1 = Inr w'
                \<or> (\<exists>e. try_body E mon moff (join root_dir [filename])
                          (output_path_of input_dir output_dir (join root_dir [filename])) w1 = Inl e
                       \<and> w' = w1\<lparr>printed := printed w1 @ [Error_processing (join root_dir [filename]) e]\<rparr>))"
  using assms
  by (auto simp: process_file_def Let_def split: sum.splits dest: print_effect)

lemma process_file_effect:
  assumes "process_file E input_dir output_dir mon moff root_dir filename w = Inr w'"
  shows "keeps w w'"
    and "accounted_for w' (join root_dir [filename])
           (output_path_of input_dir output_dir (join root_dir [filename]))"
    and "dirname (output_path_of input_dir output_dir (join root_dir [filename])) \<in> dirs w'"
    and "\<forall>p. p \<noteq> output_path_of input_dir output_dir (join root_dir [filename])
            \<longrightarrow> files w' p = files w p"
proof -
  let ?ip = "join root_dir [filename]"
  let ?op = "output_path_of input_dir output_dir ?ip"
  from process_file_cases [OF assms] obtain w1 where
    m: "makedirs E (dirname ?op) w = Inr w1" and
    c: "try_body E mon moff ?ip ?op w1 = Inr w'
        \<or> (\<exists>e. try_body E mon moff ?ip ?op w1 = Inl e
               \<and> w' = w1\<lparr>printed := printed w1 @ [Error_processing ?ip e]\<rparr>)"
    by blast
  note f = makedirs_files [OF m] and d = makedirs_dirs [OF m]
  from c show "keeps w w'"
    using f try_body_effect(3) [of E mon moff ?ip ?op w1 w'] by (auto simp: keeps_def)
  from c show "accounted_for w' ?ip ?op"
    using try_body_effect(4) [of E mon moff ?ip ?op w1 w']
    by (auto simp: accounted_for_def names_path_def)
  from c show "dirname ?op \<in> dirs w'"
    using d try_body_effect(1) [of E mon moff ?ip ?op w1 w'] by auto
  from c show "\<forall>p. p \<noteq> ?op \<longrightarrow> files w' p = files w p"
    using f try_body_effect(2) [of E mon moff ?ip ?op w1 w'] by auto
qed



subsection \<open>The two loops\<close>





subsection \<open>The small input tree, evaluated\<close>

lemma lower_wav: "endswith (lower ''a.wav'') (lower ''.wav'')" "endswith (lower ''b.wav'') (lower ''.wav'')"
  "endswith (lower ''c.WAV'') (lower ''.wav'')" "\<not> endswith (lower ''notes.txt'') (lower ''.wav'')"
  by code_simp+

lemma fl64_ms: "fl64 (125 / 128) = 125 / 128" "fl64 (125 / 64) = 125 / 64"
  by code_simp+

lemma tone_int16:
  "audio_data_int16 tone =
     [0, 8191, 16383, 24575, 32767, 24575, 16383, 8191,
      0, - 8191, - 16383, - 24575, - 32767, - 24575, - 16383, - 8191]"
  by code_simp

lemma tone_slice:
  "getitem_slice
     \<lparr>seg_data = [0, 8191, 16383, 24575, 32767, 24575, 16383, 8191,
                  0, - 8191, - 16383, - 24575, - 32767, - 24575, - 16383, - 8191],
      frame_rate = 8000\<rparr>
     (125 / 128) (125 / 64)
   = Inr \<lparr>seg_data = [8191, 0, - 8191, - 16383, - 24575, - 32767, - 24575, - 16383],
          frame_rate = 8000\<rparr>"
  by code_simp

lemma corpus_paths:
  "output_path_of [''in''] [''out''] [''in'', ''spk'', f] = [''out'', ''spk'', f]"
  by (simp add: output_path_of_def relpath_def join_def)

lemma corpus_makedirs:
  "makedirs corpus [''out'', ''spk''] w = Inr (w\<lparr>dirs := dirs w \<union> {[''out''], [''out'', ''spk'']}\<rparr>)"
  by (simp add: makedirs_def corpus_def upt_rec insert_commute)

lemma corpus_prints: "print corpus l w = Inr (w\<lparr>printed := printed w @ [l]\<rparr>)"
  by (simp add: print_def corpus_def)

lemma corpus_a:
  "process_file corpus [''in''] [''out''] 0 0 [''in'', ''spk''] ''a.wav'' w
     = Inr (w\<lparr>dirs := dirs w \<union> {[''out''], [''out'', ''spk'']},
              printed := printed w @ [No_speech_found [''in'', ''spk'', ''a.wav'']]\<rparr>)"
proof -
  have l: "librosa_load corpus [''in'', ''spk'', ''a.wav''] = Inr (tone, 8000)"
    by (simp add: corpus_def)
  have v: "vad corpus 0 0 [''in'', ''spk'', ''a.wav''] = Inr []"
    by (simp add: corpus_def)
  show ?thesis
    by (simp add: process_file_def join_def corpus_paths dirname_def corpus_makedirs
          try_body_def l v corpus_prints)
qed

lemma corpus_b:
  "process_file corpus [''in''] [''out''] 0 0 [''in'', ''spk''] ''b.wav'' w
     = Inr (w\<lparr>dirs := dirs w \<union> {[''out''], [''out'', ''spk'']},
              printed := printed w
                @ [Error_processing [''in'', ''spk'', ''b.wav''] (Raised ''corrupt file'')]\<rparr>)"
proof -
  have l: "librosa_load corpus [''in'', ''spk'', ''b.wav''] = Inl (Raised ''corrupt file'')"
    by (simp add: corpus_def)
  show ?thesis
    by (simp add: process_file_def join_def corpus_paths dirname_def corpus_makedirs
          try_body_def l corpus_prints)
qed

lemma corpus_c_body:
  assumes "[''out'', ''spk''] \<in> dirs w"
  shows "try_body corpus 0 0 [''in'', ''spk'', ''c.WAV''] [''out'', ''spk'', ''c.WAV''] w
     = Inr (w\<lparr>files := (files w)([''out'', ''spk'', ''c.WAV''] \<mapsto>
              \<lparr>seg_data = [8191, 0, - 8191, - 16383, - 24575, - 32767, - 24575, - 16383],
               frame_rate = 8000\<rparr>)\<rparr>)"
proof -
  have l: "librosa_load corpus [''in'', ''spk'', ''c.WAV''] = Inr (tone, 8000)"
    by (simp add: corpus_def)
  have v: "vad corpus 0 0 [''in'', ''spk'', ''c.WAV'']
             = Inr [\<lparr>seg_start = 1 / 1024, seg_end = 1 / 512\<rparr>]"
    by (simp add: corpus_def)
  have t: "trim_window [\<lparr>seg_start = 1 / 1024, seg_end = 1 / 512\<rparr>] = Inr (1 / 1024, 1 / 512)"
    by (simp add: trim_window_def getitem_def)
  have e: "export_raises corpus [''out'', ''spk'', ''c.WAV''] = None"
    by (simp add: corpus_def)
  show ?thesis using assms
    by (simp add: try_body_def l v t tone_int16 fl64_ms tone_slice export_def e dirname_def)
qed

lemma corpus_c:
  "process_file corpus [''in''] [''out''] 0 0 [''in'', ''spk''] ''c.WAV'' w
     = Inr (w\<lparr>dirs := dirs w \<union> {[''out''], [''out'', ''spk'']},
              files := (files w)([''out'', ''spk'', ''c.WAV''] \<mapsto>
              \<lparr>seg_data = [8191, 0, - 8191, - 16383, - 24575, - 32767, - 24575, - 16383],
               frame_rate = 8000\<rparr>)\<rparr>)"
  by (simp add: process_file_def join_def corpus_paths dirname_def corpus_makedirs corpus_c_body)

lemma corpus_walk:
  "os_walk corpus [''in''] = [([''in'', ''spk''], [''a.wav'', ''b.wav'', ''c.WAV'', ''notes.txt''])]"
  by (simp add: os_walk_def corpus_def join_def)

lemma corpus_batch:
  "trim_with_vad corpus [''in''] [''out''] 0 0 ''.wav'' empty_world
     = Inr \<lparr>dirs = {[''out''], [''out'', ''spk'']},
            files = [[''out'', ''spk'', ''c.WAV''] \<mapsto>
              \<lparr>seg_data = [8191, 0, - 8191, - 16383, - 24575, - 32767, - 24575, - 16383],
               frame_rate = 8000\<rparr>],
            printed = [No_speech_found [''in'', ''spk'', ''a.wav''],
                       Error_processing [''in'', ''spk'', ''b.wav''] (Raised ''corrupt file'')]\<rparr>"
proof -
  have m: "model_init corpus = None" by (simp add: corpus_def)
  show ?thesis
    by (simp add: trim_with_vad_def m corpus_walk lower_wav corpus_a corpus_b corpus_c)
       (auto simp: empty_world_def)
qed
subsection \<open>Rounding and truncation\<close>

lemma ilog2_bounds:
  "0 < x \<Longrightarrow> 2 powi (ilog2 x) \<le> x \<and> x < 2 powi (ilog2 x + 1)"
proof (induction x rule: ilog2.induct)
  case (1 x)
  show ?case
  proof (cases "2 \<le> x")
    case True
    have e: "ilog2 x = ilog2 (x / 2) + 1" using True "1.prems" by (subst ilog2.simps) simp
    have "2 powi (ilog2 (x / 2)) \<le> x / 2 \<and> x / 2 < 2 powi (ilog2 (x / 2) + 1)"
      using "1.IH"(1) True "1.prems" by simp
    then show ?thesis unfolding e by (simp add: power_int_add)
  next
    case False
    show ?thesis
    proof (cases "x < 1")
      case True
      have e: "ilog2 x = ilog2 (x * 2) - 1" using True False "1.prems" by (subst ilog2.simps) simp
      have "2 powi (ilog2 (x * 2)) \<le> x * 2 \<and> x * 2 < 2 powi (ilog2 (x * 2) + 1)"
        using "1.IH"(2) True False "1.prems" by simp
      then show ?thesis unfolding e by (simp add: power_int_add power_int_diff)
    next
      case b: False
      have e: "ilog2 x = 0" using b False "1.prems" by (subst ilog2.simps) simp
      show ?thesis unfolding e using b False by simp
    qed
  qed
qed

lemma ilog2_less: 
  assumes "0 < x" "x < 2 powi k"
  shows "ilog2 x < k"
proof (rule ccontr)
  assume "\<not> ilog2 x < k"
  then have "k \<le> ilog2 x" by simp
  then have "(2::rat) powi k \<le> 2 powi (ilog2 x)" by (intro power_int_increasing) simp_all
  also have "\<dots> \<le> x" using ilog2_bounds [OF assms(1)] by simp
  finally show False using assms(2) by simp
qed

lemma round_half_even_le:
  assumes "x \<le> of_int m"
  shows "round_half_even x \<le> m"
proof (cases "x - of_int \<lfloor>x\<rfloor> < 1 / 2")
  case True
  then have "round_half_even x = \<lfloor>x\<rfloor>" by (simp add: round_half_even_def)
  moreover have "\<lfloor>x\<rfloor> \<le> m" using assms by (simp add: floor_le_iff)
  ultimately show ?thesis by simp
next
  case False
  then have "of_int \<lfloor>x\<rfloor> < x" by simp
  with assms have "of_int \<lfloor>x\<rfloor> < (of_int m :: rat)" by simp
  then have "\<lfloor>x\<rfloor> < m" by (simp only: of_int_less_iff)
  moreover have "round_half_even x \<le> \<lfloor>x\<rfloor> + 1" by (simp add: round_half_even_def Let_def)
  ultimately show ?thesis by simp
qed

lemma round_half_even_ge:
  assumes "of_int m \<le> x"
  shows "m \<le> round_half_even x"
proof -
  have "m \<le> \<lfloor>x\<rfloor>" using assms by (simp add: le_floor_iff)
  moreover have "\<lfloor>x\<rfloor> \<le> round_half_even x" by (simp add: round_half_even_def Let_def)
  ultimately show ?thesis by simp
qed

lemma trunc_zero_abs_le: "\<bar>of_int (trunc_zero x)\<bar> \<le> \<bar>x\<bar>"
  by (simp add: abs_of_nonneg abs_of_nonpos ceiling_le_zero le_of_int_ceiling trunc_zero_def)

lemma trunc_zero_abs_gt: "\<bar>x\<bar> < \<bar>of_int (trunc_zero x)\<bar> + 1"
proof (cases "0 \<le> x")
  case True
  then have "\<bar>of_int (trunc_zero x) :: rat\<bar> = of_int \<lfloor>x\<rfloor>"
    by (simp add: trunc_zero_def)
  then show ?thesis using True by simp linarith
next
  case False
  then have "\<lceil>x\<rceil> \<le> 0" by (simp add: ceiling_le_zero)
  then have "\<bar>of_int (trunc_zero x) :: rat\<bar> = - of_int \<lceil>x\<rceil>"
    using False by (simp add: trunc_zero_def)
  moreover have "of_int \<lceil>x\<rceil> - 1 < x" by linarith
  ultimately show ?thesis using False by simp
qed

lemma sint16_wrap: "sint (word_of_int t :: 16 word) = (t + 32768) mod 65536 - 32768"
  by (simp add: sint_sbintrunc' signed_take_bit_eq_take_bit_shift take_bit_eq_mod)

lemma sint16_id: "- 32768 \<le> t \<Longrightarrow> t \<le> 32767 \<Longrightarrow> sint (word_of_int t :: 16 word) = t"
  by (simp add: sint16_wrap)

lemma fl32_bound:
  assumes "\<bar>x\<bar> \<le> 32767"
  shows "\<bar>fl32 x\<bar> \<le> 32767"
proof (cases "x = 0")
  case True
  then show ?thesis by (simp add: fl32_def fl_def)
next
  case False
  define q where "q = max (ilog2 \<bar>x\<bar> - 23) (- 149)"
  have "\<bar>x\<bar> < 2 powi 15" using assms by simp
  then have "ilog2 \<bar>x\<bar> < 15" using False by (intro ilog2_less) simp_all
  then have q0: "q \<le> 0" by (simp add: q_def)
  define n where "n = nat (- q)"
  have qn: "q = - int n" using q0 by (simp add: n_def)
  have pq: "(2::rat) powi q = 1 / 2 ^ n"
    unfolding qn by (simp add: power_int_minus divide_inverse)
  have sc: "x / 2 powi q = x * 2 ^ n" by (simp add: pq)
  have up: "x * 2 ^ n \<le> of_int (32767 * 2 ^ n)"
    using assms by (simp add: abs_le_iff)
  have "- 32767 \<le> x" using assms by (simp add: abs_le_iff)
  then have "(- 32767) * 2 ^ n \<le> x * (2 ^ n :: rat)" by (intro mult_right_mono) simp_all
  then have lo: "of_int (- (32767 * 2 ^ n)) \<le> x * 2 ^ n" by simp
  have r1: "round_half_even (x * 2 ^ n) \<le> 32767 * 2 ^ n" using up by (rule round_half_even_le)
  have r2: "- (32767 * 2 ^ n) \<le> round_half_even (x * 2 ^ n)" using lo by (rule round_half_even_ge)
  have "fl32 x = of_int (round_half_even (x / 2 powi q)) * 2 powi q"
    using False by (simp add: fl32_def fl_def q_def Let_def)
  then have fl: "fl32 x = of_int (round_half_even (x * 2 ^ n)) / 2 ^ n"
    by (simp only: sc) (simp add: pq)
  have "(of_int (round_half_even (x * 2 ^ n)) :: rat) \<le> of_int (32767 * 2 ^ n)"
    using r1 by (simp only: of_int_le_iff)
  moreover have "(of_int (- (32767 * 2 ^ n)) :: rat) \<le> of_int (round_half_even (x * 2 ^ n))"
    using r2 by (simp only: of_int_le_iff)
  ultimately have "\<bar>of_int (round_half_even (x * 2 ^ n)) :: rat\<bar> \<le> 32767 * 2 ^ n"
    by (simp add: abs_le_iff)
  then show ?thesis unfolding fl by (simp add: abs_le_iff field_simps)
qed

lemma sint16_range: "- 32768 \<le> sint (w :: 16 word) \<and> sint w \<le> 32767"
  using sint_ge [of w] sint_lt [of w] by simp

lemma trunc_samples:
  "trunc_zero (32767 / 2) = 16383"
  "trunc_zero (- (8388609 / 256)) = - 32768"
  "trunc_zero (163835 / 4) = 40958"
  "trunc_zero 32767 = 32767"
  by code_simp+

lemma fl32_samples:
  "fl32 (1 / 2 * 32767) = 32767 / 2"
  "fl32 (1 * 32767) = 32767"
  "fl32 (5 / 4 * 32767) = 163835 / 4"
  "fl32 (- (8388865 / 8388608) * 32767) = - (8388609 / 256)"
  "fl32 (1 / 4 * 32767) = 32767 / 4"
  "fl32 (- (1 / 4) * 32767) = - (32767 / 4)"
  "fl32 (- (5 / 4) * 32767) = - (163835 / 4)"
  by code_simp+

lemma floor_samples:
  "\<lfloor>32767 / 4 :: rat\<rfloor> = 8191"
  "- \<lfloor>- (- (32767 / 4)) :: rat\<rfloor> = - 8191"
  "trunc_zero (- (163835 / 4)) = - 40958"
  by code_simp+

lemma round_half_even_minus: "round_half_even (- x) = - round_half_even x"
proof (cases "x = of_int \<lfloor>x\<rfloor>")
  case True
  then obtain k :: int where k: "x = of_int k" by blast
  have "- x = of_int (- k)" by (simp add: k)
  then have "round_half_even (- x) = - k"
    by (simp only: round_half_even_def Let_def floor_of_int) simp
  moreover have "round_half_even x = k" by (simp add: k round_half_even_def)
  ultimately show ?thesis by simp
next
  case False
  define f where "f = \<lfloor>x\<rfloor>"
  have lt: "of_int f < x" using False of_int_floor_le [of x] unfolding f_def by linarith
  have ub: "x < of_int f + 1" unfolding f_def by linarith
  have fm: "\<lfloor>- x\<rfloor> = - f - 1"
    using lt ub by (intro floor_unique) simp_all
  show ?thesis
    using lt ub
    by (simp add: round_half_even_def Let_def fm f_def [symmetric])
qed

lemma fl_nonneg:
  assumes "0 \<le> x"
  shows "0 \<le> fl p qmin x"
proof (cases "x = 0")
  case True
  then show ?thesis by (simp add: fl_def)
next
  case False
  define q where "q = max (ilog2 \<bar>x\<bar> - (int p - 1)) qmin"
  have "(0::rat) < 2 powi q" by simp
  then have "of_int 0 \<le> x / 2 powi q" using assms by simp
  then have "0 \<le> round_half_even (x / 2 powi q)" by (rule round_half_even_ge)
  then have "0 \<le> of_int (round_half_even (x / 2 powi q)) * (2::rat) powi q" by simp
  then show ?thesis using False by (simp add: fl_def q_def Let_def)
qed

lemma fl_minus: "fl p qmin (- x) = - fl p qmin x"
  by (simp add: fl_def Let_def round_half_even_minus)

lemma fl32_minus: "fl32 (- x) = - fl32 x"
  by (simp add: fl32_def fl_minus)


text \<open>Rounding to \<open>float32\<close> does not cross a value of the format.\<close>

lemma fl32_le_scaled:
  assumes "0 < x" "x \<le> of_int m * 2 ^ k" "x < 2 ^ (k + 24)"
  shows "fl32 x \<le> of_int m * 2 ^ k"
proof -
  define q where "q = max (ilog2 \<bar>x\<bar> - 23) (- 149)"
  have "x < 2 powi (int k + 24)" using assms(3) by (simp add: power_int_def nat_add_distrib)
  then have "ilog2 x < int k + 24" using assms(1) by (intro ilog2_less)
  then have qk: "q \<le> int k" using assms(1) by (simp add: q_def)
  define n where "n = nat (int k - q)"
  have qn: "q = int k - int n" using qk by (simp add: n_def)
  have pq: "(2::rat) powi q = 2 ^ k / 2 ^ n"
    unfolding qn by (simp add: power_int_diff)
  have "x * 2 ^ n \<le> (of_int m * 2 ^ k) * 2 ^ n"
    using assms(2) by (intro mult_right_mono) simp_all
  then have "x * 2 ^ n / 2 ^ k \<le> of_int m * 2 ^ n"
    by (simp add: field_simps)
  then have "x / 2 powi q \<le> of_int (m * 2 ^ n)" by (simp add: pq)
  then have "round_half_even (x / 2 powi q) \<le> m * 2 ^ n" by (rule round_half_even_le)
  then have "(of_int (round_half_even (x / 2 powi q)) :: rat) \<le> of_int (m * 2 ^ n)"
    by (simp only: of_int_le_iff)
  then have "of_int (round_half_even (x / 2 powi q)) * (2::rat) powi q
               \<le> of_int (m * 2 ^ n) * 2 powi q"
    by (intro mult_right_mono) simp_all
  also have "\<dots> = of_int m * 2 ^ k" by (simp add: pq)
  finally have "of_int (round_half_even (x / 2 powi q)) * (2::rat) powi q \<le> of_int m * 2 ^ k" .
  moreover have "fl32 x = of_int (round_half_even (x / 2 powi q)) * 2 powi q"
    using assms(1) by (simp add: fl32_def fl_def q_def Let_def)
  ultimately show ?thesis by simp
qed

lemma fl32_ge_int:
  assumes "0 < m" "m < 2 ^ 24" "of_int m \<le> x"
  shows "of_int m \<le> fl32 x"
proof -
  have "(0::rat) < of_int m" using assms(1) by simp
  then have x0: "0 < x" using assms(3) by linarith
  define q where "q = max (ilog2 \<bar>x\<bar> - 23) (- 149)"
  have fl: "fl32 x = of_int (round_half_even (x / 2 powi q)) * 2 powi q"
    using x0 by (simp add: fl32_def fl_def q_def Let_def)
  show ?thesis
  proof (cases "q \<le> 0")
    case True
    define n where "n = nat (- q)"
    have qn: "q = - int n" using True by (simp add: n_def)
    have pq: "(2::rat) powi q = 1 / 2 ^ n"
      unfolding qn by (simp add: power_int_minus divide_inverse)
    have "of_int m * 2 ^ n \<le> x * (2 ^ n :: rat)"
      using assms(3) by (intro mult_right_mono) simp_all
    then have "of_int (m * 2 ^ n) \<le> x / 2 powi q" by (simp add: pq)
    then have "m * 2 ^ n \<le> round_half_even (x / 2 powi q)" by (rule round_half_even_ge)
    then have "(of_int (m * 2 ^ n) :: rat) \<le> of_int (round_half_even (x / 2 powi q))"
      by (simp only: of_int_le_iff)
    then have "of_int (m * 2 ^ n) * (2::rat) powi q
                 \<le> of_int (round_half_even (x / 2 powi q)) * 2 powi q"
      by (intro mult_right_mono) simp_all
    moreover have "of_int (m * 2 ^ n) * (2::rat) powi q = of_int m" by (simp add: pq)
    ultimately show ?thesis by (simp only: fl)
  next
    case False
    then have q0: "0 < q" by simp
    then have qe: "q = ilog2 x - 23" using x0 by (simp add: q_def max_def split: if_splits)
    define n where "n = nat q"
    have qn: "q = int n" using q0 by (simp add: n_def)
    have pq: "(2::rat) powi q = 2 ^ n" unfolding qn by simp
    have "(2::rat) powi (ilog2 x) \<le> x" using ilog2_bounds [OF x0] by simp
    moreover have "ilog2 x = int (n + 23)" using qe qn by simp
    ultimately have "(2::rat) ^ (n + 23) \<le> x" by (simp only: power_int_of_nat)
    then have "(2::rat) ^ 23 * 2 ^ n \<le> x" by (simp add: power_add mult.commute)
    then have "(2::rat) ^ 23 \<le> x / 2 ^ n" by (simp add: field_simps)
    then have "of_int (2 ^ 23) \<le> x / 2 powi q" by (simp add: pq)
    then have "2 ^ 23 \<le> round_half_even (x / 2 powi q)" by (rule round_half_even_ge)
    then have "(of_int (2 ^ 23) :: rat) \<le> of_int (round_half_even (x / 2 powi q))"
      by (simp only: of_int_le_iff)
    then have "of_int (2 ^ 23) * (2::rat) powi q
                 \<le> of_int (round_half_even (x / 2 powi q)) * 2 powi q"
      by (intro mult_right_mono) simp_all
    then have a: "(2::rat) ^ 23 * 2 ^ n \<le> fl32 x" by (simp add: fl pq)
    have "(1::rat) \<le> 2 ^ n" by simp
    then have "(2::rat) ^ 23 * 1 \<le> 2 ^ 23 * 2 ^ n" by (intro mult_left_mono) simp_all
    moreover have "(of_int m :: rat) \<le> 2 ^ 23 * 2"
    proof -
      have "m \<le> 2 ^ 24" using assms(2) by simp
      then have "(of_int m :: rat) \<le> of_int (2 ^ 24)" by (simp only: of_int_le_iff)
      then show ?thesis by simp
    qed
    moreover have "(2::rat) ^ 23 * 2 \<le> 2 ^ 23 * 2 ^ n"
    proof -
      have "1 \<le> n" using q0 qn by simp
      then have "(2::rat) ^ 1 \<le> 2 ^ n" by (intro power_increasing) simp_all
      then show ?thesis by simp
    qed
    ultimately show ?thesis using a by linarith
  qed
qed

lemma trunc_zero_ge: "0 \<le> m \<Longrightarrow> of_int m \<le> x \<Longrightarrow> m \<le> trunc_zero x"
  by (simp add: trunc_zero_def le_floor_iff)

lemma trunc_zero_le: "0 \<le> x \<Longrightarrow> x \<le> of_int m \<Longrightarrow> trunc_zero x \<le> m"
  by (simp add: trunc_zero_def floor_le_iff)

lemma trunc_zero_minus: "trunc_zero (- x) = - trunc_zero x"
  by (auto simp: trunc_zero_def ceiling_minus floor_minus)

subsection \<open>Slicing the audio segment\<close>

lemma fl64_nonneg: "0 \<le> x \<Longrightarrow> 0 \<le> fl64 x"
  by (simp add: fl64_def fl_nonneg)

lemma trunc_zero_nonneg:
  "0 \<le> x \<Longrightarrow> 0 \<le> trunc_zero x \<and> of_int (trunc_zero x) \<le> x \<and> x < of_int (trunc_zero x) + 1"
  by (simp add: trunc_zero_def) linarith

lemma frame_count_ms_nonneg:
  assumes "0 < frame_rate seg" "0 \<le> ms"
  shows "0 \<le> frame_count_ms seg ms"
proof -
  have "0 \<le> fl64 (of_int (frame_rate seg))" using assms(1) by (intro fl64_nonneg) simp
  then have "0 \<le> fl64 (fl64 (of_int (frame_rate seg)) / 1000)" by (intro fl64_nonneg) simp
  then have "0 \<le> ms * fl64 (fl64 (of_int (frame_rate seg)) / 1000)"
    using assms(2) by simp
  then show ?thesis unfolding frame_count_ms_def by (rule fl64_nonneg)
qed

lemma seg_len_nonneg:
  assumes "0 < frame_rate seg" "seg_len seg = Inr len"
  shows "0 \<le> len"
proof -
  have a: "0 \<le> fl64 (of_nat (length (seg_data seg)))" by (intro fl64_nonneg) simp
  have b: "0 \<le> fl64 (of_int (frame_rate seg))" using assms(1) by (intro fl64_nonneg) simp
  have "0 \<le> fl64 (fl64 (of_nat (length (seg_data seg))) / fl64 (of_int (frame_rate seg)))"
    using a b by (intro fl64_nonneg) simp
  then have "0 \<le> fl64 (1000 * fl64 (fl64 (of_nat (length (seg_data seg)))
                                   / fl64 (of_int (frame_rate seg))))"
    by (intro fl64_nonneg) simp
  then have "of_int 0 \<le> fl64 (1000 * fl64 (fl64 (of_nat (length (seg_data seg)))
                                   / fl64 (of_int (frame_rate seg))))" by simp
  then have "0 \<le> round_half_even (fl64 (1000 * fl64 (fl64 (of_nat (length (seg_data seg)))
                                   / fl64 (of_int (frame_rate seg)))))"
    by (rule round_half_even_ge)
  then show ?thesis using assms by (simp add: seg_len_def)
qed

lemma min_len_nonneg: "0 \<le> len \<Longrightarrow> 0 \<le> t \<Longrightarrow> 0 \<le> min_len t len"
  by (simp add: min_len_def fl64_nonneg)

lemma py_slice_within:
  assumes "0 \<le> so" "so \<le> eo" "eo \<le> int (length xs)"
  shows "py_slice xs so eo = take (nat (eo - so)) (drop (nat so) xs)"
    and "int (length (take (nat (eo - so)) (drop (nat so) xs))) = eo - so"
proof -
  have i1: "py_index (length xs) so = nat so" using assms by (simp add: py_index_def)
  have i2: "py_index (length xs) eo = nat eo" using assms by (simp add: py_index_def)
  have d: "nat eo - nat so = nat (eo - so)" using assms by (simp add: nat_diff_distrib)
  show "py_slice xs so eo = take (nat (eo - so)) (drop (nat so) xs)"
    by (simp add: py_slice_def i1 i2 d)
  have "nat (eo - so) \<le> length xs - nat so" using assms by linarith
  then have "length (take (nat (eo - so)) (drop (nat so) xs)) = nat (eo - so)" by simp
  then show "int (length (take (nat (eo - so)) (drop (nat so) xs))) = eo - so"
    using assms by simp
qed

lemma tone_segment_data:
  "tone_segment =
     \<lparr>seg_data = [0, 8191, 16383, 24575, 32767, 24575, 16383, 8191,
                  0, - 8191, - 16383, - 24575, - 32767, - 24575, - 16383, - 8191],
      frame_rate = 8000\<rparr>"
  by (simp add: tone_segment_def tone_int16)

lemma tone16_values:
  "seg_len \<lparr>seg_data = [0, 8191, 16383, 24575, 32767, 24575, 16383, 8191,
                  0, - 8191, - 16383, - 24575, - 32767, - 24575, - 16383, - 8191],
      frame_rate = 8000\<rparr> = Inr 2"
  "trunc_zero (frame_count_ms \<lparr>seg_data = [0, 8191, 16383, 24575, 32767, 24575, 16383, 8191,
                  0, - 8191, - 16383, - 24575, - 32767, - 24575, - 16383, - 8191],
      frame_rate = 8000\<rparr> (min_len (125 / 128) 2)) = 7"
  "trunc_zero (frame_count_ms \<lparr>seg_data = [0, 8191, 16383, 24575, 32767, 24575, 16383, 8191,
                  0, - 8191, - 16383, - 24575, - 32767, - 24575, - 16383, - 8191],
      frame_rate = 8000\<rparr> (min_len (125 / 64) 2)) = 15"
  "spec_offset \<lparr>seg_data = [0, 8191, 16383, 24575, 32767, 24575, 16383, 8191,
                  0, - 8191, - 16383, - 24575, - 32767, - 24575, - 16383, - 8191],
      frame_rate = 8000\<rparr> (1 / 1024) = 8"
  "spec_offset \<lparr>seg_data = [0, 8191, 16383, 24575, 32767, 24575, 16383, 8191,
                  0, - 8191, - 16383, - 24575, - 32767, - 24575, - 16383, - 8191],
      frame_rate = 8000\<rparr> (1 / 512) = 16"
  by code_simp+

lemma tone_segment_values:
  "seg_len tone_segment = Inr 2"
  "trunc_zero (frame_count_ms tone_segment (min_len (125 / 128) 2)) = 7"
  "trunc_zero (frame_count_ms tone_segment (min_len (125 / 64) 2)) = 15"
  "spec_offset tone_segment (1 / 1024) = 8"
  "spec_offset tone_segment (1 / 512) = 16"
  by (simp_all only: tone_segment_data tone16_values)

lemma ms_values: "(1 / 1024 * 1000 :: rat) = 125 / 128" "(1 / 512 * 1000 :: rat) = 125 / 64"
  by simp_all

lemma tone_window_values:
  "round_half_even (fl64 (1000 * fl64 (fl64 (of_nat (length (seg_data tone_segment)))
                                        / fl64 (of_int (frame_rate tone_segment))))) = 2"
  "\<lfloor>fl64 ((if of_int 2 < fl64 (1 / 1024 * 1000) then fl64 (of_int 2)
              else fl64 (1 / 1024 * 1000))
             * fl64 (fl64 (of_int (frame_rate tone_segment)) / 1000))\<rfloor> = 7"
  "\<lfloor>fl64 ((if of_int 2 < fl64 (1 * 1000) then fl64 (of_int 2) else fl64 (1 * 1000))
             * fl64 (fl64 (of_int (frame_rate tone_segment)) / 1000))\<rfloor> = 16"
  by code_simp+

subsection \<open>The trim window\<close>

text \<open>
  Claim C2. For every non-empty speech timeline the trim window is computed without an
  exception; it starts where the first segment starts and ends where the last segment ends,
  whatever lies between them.
\<close>

theorem trim_window_first_last:
  "speech_timeline \<noteq> [] \<Longrightarrow>
     trim_window speech_timeline
       = Inr (seg_start (hd speech_timeline), seg_end (last speech_timeline))"
  by (simp add: trim_window_def getitem_first getitem_last)

theorem trim_window_first_last_witness:
  "[\<lparr>seg_start = 2, seg_end = 3\<rparr>, \<lparr>seg_start = 15 / 2, seg_end = 9\<rparr>] \<noteq> []
   \<and> trim_window [\<lparr>seg_start = 2, seg_end = 3\<rparr>, \<lparr>seg_start = 15 / 2, seg_end = 9\<rparr>]
       = Inr (2, 9)"
  using trim_window_first_last
    [of "[\<lparr>seg_start = 2, seg_end = 3\<rparr>, \<lparr>seg_start = 15 / 2, seg_end = 9\<rparr>]"]
  by simp

subsection \<open>A recording without speech\<close>

text \<open>
  Claim C3 says that a file with an empty timeline is logged as "no speech" and that the
  batch continues with the next file. The notice is printed inside the \<^verbatim>\<open>try\<close>, and
  the handler prints again: when the standard output refuses the lines, the notice of
  \<open>a.wav\<close> is not printed, the exception of the handler's own \<open>print\<close> leaves both loops,
  and the files after \<open>a.wav\<close> are never reached.
\<close>

theorem no_speech_notice_unprintable_aborts_batch:
  "process_file mute_corpus [''in''] [''out''] 0 0 [''in'', ''spk''] ''a.wav'' empty_world
     = Inl (Raised ''UnicodeEncodeError'')
   \<and> trim_with_vad mute_corpus [''in''] [''out''] 0 0 ''.wav'' empty_world
     = Inl (Raised ''UnicodeEncodeError'')"
proof -
  have m: "model_init mute_corpus = None" by (simp add: mute_corpus_def corpus_def)
  have w: "os_walk mute_corpus [''in'']
             = [([''in'', ''spk''], [''a.wav'', ''b.wav'', ''c.WAV'', ''notes.txt''])]"
    by (simp add: os_walk_def mute_corpus_def corpus_def join_def)
  have d: "makedirs mute_corpus [''out'', ''spk''] empty_world
             = Inr (empty_world\<lparr>dirs := {[''out''], [''out'', ''spk'']}\<rparr>)"
    by (simp add: makedirs_def mute_corpus_def corpus_def empty_world_def upt_rec insert_commute)
  have l: "librosa_load mute_corpus [''in'', ''spk'', ''a.wav''] = Inr (tone, 8000)"
    by (simp add: mute_corpus_def corpus_def)
  have v: "vad mute_corpus 0 0 [''in'', ''spk'', ''a.wav''] = Inr []"
    by (simp add: mute_corpus_def corpus_def)
  have pr: "print mute_corpus ln v = Inl (Raised ''UnicodeEncodeError'')" for ln v
    by (simp add: print_def mute_corpus_def)
  have p: "process_file mute_corpus [''in''] [''out''] 0 0 [''in'', ''spk''] ''a.wav'' empty_world
             = Inl (Raised ''UnicodeEncodeError'')"
    by (simp add: process_file_def join_def corpus_paths dirname_def d try_body_def l v pr)
  show ?thesis
    by (simp add: trim_with_vad_def m w lower_wav p)
qed

text \<open>
  Claim C3, amended. When a recording is decoded, the detector returns an empty timeline and
  the notice can be printed, the file is finished without an exception: the line printed for
  it is the "no speech" line and not an error line, no file is written, and both loops go on
  with what remains. When the notice cannot be printed, the file ends with the error line
  of that failure if this line can be printed, and with an exception leaving the loops if it
  cannot.
\<close>

theorem no_speech_skips_file:
  assumes "makedirs E (dirname (output_path_of input_dir output_dir (join root_dir [filename]))) w
             = Inr w1"
    and "librosa_load E (join root_dir [filename]) = Inr (audio_data, sr)"
    and "vad E mon moff (join root_dir [filename]) = Inr []"
    and "endswith (lower filename) (lower file_ext)"
  shows "(print_raises E (No_speech_found (join root_dir [filename])) = None \<longrightarrow>
            process_file E input_dir output_dir mon moff root_dir filename w
              = Inr (w1\<lparr>printed := printed w @ [No_speech_found (join root_dir [filename])]\<rparr>)
            \<and> files (w1\<lparr>printed := printed w @ [No_speech_found (join root_dir [filename])]\<rparr>)
                = files w
            \<and> files_loop E input_dir output_dir mon moff file_ext root_dir (filename # rest) w
                = files_loop E input_dir output_dir mon moff file_ext root_dir rest
                    (w1\<lparr>printed := printed w @ [No_speech_found (join root_dir [filename])]\<rparr>)
            \<and> walk_loop E input_dir output_dir mon moff file_ext
                  ((root_dir, filename # rest) # others) w
                = (case files_loop E input_dir output_dir mon moff file_ext root_dir rest
                          (w1\<lparr>printed := printed w @ [No_speech_found (join root_dir [filename])]\<rparr>) of
                     Inl e \<Rightarrow> Inl e
                   | Inr w' \<Rightarrow> walk_loop E input_dir output_dir mon moff file_ext others w'))
       \<and> (\<forall>e. print_raises E (No_speech_found (join root_dir [filename])) = Some e \<longrightarrow>
            process_file E input_dir output_dir mon moff root_dir filename w
              = (case print_raises E (Error_processing (join root_dir [filename]) e) of
                   Some e' \<Rightarrow> Inl e'
                 | None \<Rightarrow>
                     Inr (w1\<lparr>printed := printed w
                               @ [Error_processing (join root_dir [filename]) e]\<rparr>)))"
proof (intro conjI impI allI)
  let ?ip = "join root_dir [filename]"
  let ?op = "output_path_of input_dir output_dir ?ip"
  have pw: "printed w1 = printed w" using makedirs_files [OF assms(1)] by simp
  have body: "try_body E mon moff ?ip ?op w1 = print E (No_speech_found ?ip) w1"
    using assms(2,3) by (simp add: try_body_def)
  {
    assume ok: "print_raises E (No_speech_found ?ip) = None"
    show pf: "process_file E input_dir output_dir mon moff root_dir filename w
                = Inr (w1\<lparr>printed := printed w @ [No_speech_found ?ip]\<rparr>)"
      using assms(1) body ok pw by (simp add: process_file_def Let_def print_def)
    show "files (w1\<lparr>printed := printed w @ [No_speech_found ?ip]\<rparr>) = files w"
      using makedirs_files [OF assms(1)] by simp
    show fl: "files_loop E input_dir output_dir mon moff file_ext root_dir (filename # rest) w
                = files_loop E input_dir output_dir mon moff file_ext root_dir rest
                    (w1\<lparr>printed := printed w @ [No_speech_found ?ip]\<rparr>)"
      using assms(4) pf by simp
    show "walk_loop E input_dir output_dir mon moff file_ext
                  ((root_dir, filename # rest) # others) w
                = (case files_loop E input_dir output_dir mon moff file_ext root_dir rest
                          (w1\<lparr>printed := printed w @ [No_speech_found ?ip]\<rparr>) of
                     Inl e \<Rightarrow> Inl e
                   | Inr w' \<Rightarrow> walk_loop E input_dir output_dir mon moff file_ext others w')"
      using fl by (simp only: walk_loop.simps)
  }
  {
    fix e
    assume bad: "print_raises E (No_speech_found ?ip) = Some e"
    show "process_file E input_dir output_dir mon moff root_dir filename w
              = (case print_raises E (Error_processing ?ip e) of
                   Some e' \<Rightarrow> Inl e'
                 | None \<Rightarrow> Inr (w1\<lparr>printed := printed w @ [Error_processing ?ip e]\<rparr>))"
      using assms(1) body bad pw
      by (simp add: process_file_def Let_def print_def split: option.splits)
  }
qed

theorem no_speech_skips_file_witness:
  "makedirs corpus (dirname (output_path_of [''in''] [''out''] (join [''in'', ''spk''] [''a.wav''])))
       empty_world
     = Inr (empty_world\<lparr>dirs := {[''out''], [''out'', ''spk'']}\<rparr>)
   \<and> librosa_load corpus (join [''in'', ''spk''] [''a.wav'']) = Inr (tone, 8000)
   \<and> vad corpus 0 0 (join [''in'', ''spk''] [''a.wav'']) = Inr []
   \<and> endswith (lower ''a.wav'') (lower ''.wav'')
   \<and> print_raises corpus (No_speech_found (join [''in'', ''spk''] [''a.wav''])) = None
   \<and> process_file corpus [''in''] [''out''] 0 0 [''in'', ''spk''] ''a.wav'' empty_world
       = Inr \<lparr>dirs = {[''out''], [''out'', ''spk'']}, files = Map.empty,
              printed = [No_speech_found [''in'', ''spk'', ''a.wav'']]\<rparr>
   \<and> files_loop corpus [''in''] [''out''] 0 0 ''.wav'' [''in'', ''spk''] [''a.wav'', ''b.wav''] empty_world
       = files_loop corpus [''in''] [''out''] 0 0 ''.wav'' [''in'', ''spk''] [''b.wav'']
           \<lparr>dirs = {[''out''], [''out'', ''spk'']}, files = Map.empty,
            printed = [No_speech_found [''in'', ''spk'', ''a.wav'']]\<rparr>
   \<and> print_raises (corpus\<lparr>print_raises := (\<lambda>l. case l of No_speech_found p \<Rightarrow> Some ValueError
                                                      | Error_processing p e \<Rightarrow> None)\<rparr>)
         (No_speech_found (join [''in'', ''spk''] [''a.wav''])) = Some ValueError
   \<and> process_file (corpus\<lparr>print_raises := (\<lambda>l. case l of No_speech_found p \<Rightarrow> Some ValueError
                                                      | Error_processing p e \<Rightarrow> None)\<rparr>)
         [''in''] [''out''] 0 0 [''in'', ''spk''] ''a.wav'' empty_world
       = Inr \<lparr>dirs = {[''out''], [''out'', ''spk'']}, files = Map.empty,
              printed = [Error_processing [''in'', ''spk'', ''a.wav''] ValueError]\<rparr>"
proof -
  let ?E = "corpus\<lparr>print_raises := (\<lambda>l. case l of No_speech_found p \<Rightarrow> Some ValueError
                                                      | Error_processing p e \<Rightarrow> None)\<rparr>"
  have h1: "makedirs corpus
              (dirname (output_path_of [''in''] [''out''] (join [''in'', ''spk''] [''a.wav''])))
              empty_world
            = Inr (empty_world\<lparr>dirs := {[''out''], [''out'', ''spk'']}\<rparr>)"
    by (simp add: join_def corpus_paths dirname_def corpus_makedirs) (simp add: empty_world_def)
  have h2: "librosa_load corpus (join [''in'', ''spk''] [''a.wav'']) = Inr (tone, 8000)"
    by (simp add: corpus_def join_def)
  have h3: "vad corpus 0 0 (join [''in'', ''spk''] [''a.wav'']) = Inr []"
    by (simp add: corpus_def join_def)
  have h4: "endswith (lower ''a.wav'') (lower ''.wav'')"
    by (rule lower_wav(1))
  have h5: "print_raises corpus (No_speech_found (join [''in'', ''spk''] [''a.wav''])) = None"
    by (simp add: corpus_def)
  note t = no_speech_skips_file [OF h1 h2 h3 h4, of "[''b.wav'']" "[]", THEN conjunct1, rule_format, OF h5]
  have e: "empty_world\<lparr>dirs := {[''out''], [''out'', ''spk'']},
                        printed := printed empty_world @ [No_speech_found (join [''in'', ''spk''] [''a.wav''])]\<rparr>
           = \<lparr>dirs = {[''out''], [''out'', ''spk'']}, files = Map.empty,
              printed = [No_speech_found [''in'', ''spk'', ''a.wav'']]\<rparr>"
    by (simp add: empty_world_def join_def)
  from t have c1: "process_file corpus [''in''] [''out''] 0 0 [''in'', ''spk''] ''a.wav'' empty_world
       = Inr \<lparr>dirs = {[''out''], [''out'', ''spk'']}, files = Map.empty,
              printed = [No_speech_found [''in'', ''spk'', ''a.wav'']]\<rparr>"
    by (simp only: e)
  from t have c2: "files_loop corpus [''in''] [''out''] 0 0 ''.wav'' [''in'', ''spk''] [''a.wav'', ''b.wav''] empty_world
       = files_loop corpus [''in''] [''out''] 0 0 ''.wav'' [''in'', ''spk''] [''b.wav'']
           \<lparr>dirs = {[''out''], [''out'', ''spk'']}, files = Map.empty,
            printed = [No_speech_found [''in'', ''spk'', ''a.wav'']]\<rparr>"
    by (simp only: e)
  have mk: "makedirs ?E d v = makedirs corpus d v" for d v
    by (simp add: makedirs_def)
  have g1: "makedirs ?E
              (dirname (output_path_of [''in''] [''out''] (join [''in'', ''spk''] [''a.wav''])))
              empty_world
            = Inr (empty_world\<lparr>dirs := {[''out''], [''out'', ''spk'']}\<rparr>)"
    by (simp only: mk h1)
  have g2: "librosa_load ?E (join [''in'', ''spk''] [''a.wav'']) = Inr (tone, 8000)"
    using h2 by simp
  have g3: "vad ?E 0 0 (join [''in'', ''spk''] [''a.wav'']) = Inr []"
    using h3 by simp
  have g5: "print_raises ?E (No_speech_found (join [''in'', ''spk''] [''a.wav''])) = Some ValueError"
    by simp
  note u = no_speech_skips_file [OF g1 g2 g3 h4, of "[]" "[]", THEN conjunct2, rule_format, OF g5]
  from u have c3: "process_file ?E [''in''] [''out''] 0 0 [''in'', ''spk''] ''a.wav'' empty_world
       = Inr \<lparr>dirs = {[''out''], [''out'', ''spk'']}, files = Map.empty,
              printed = [Error_processing [''in'', ''spk'', ''a.wav''] ValueError]\<rparr>"
    by (simp add: empty_world_def join_def)
  show ?thesis using h1 h2 h3 h4 h5 c1 c2 g5 c3 by blast
qed

subsection \<open>Exceptions of one file\<close>




subsection \<open>Output paths and directories\<close>

text \<open>
  Claim C7 says that no output directory is created for a file that yields no output. The
  directory is created before the \<^verbatim>\<open>try\<close>, whatever the file turns out to hold: for a
  tree whose only recording holds no speech, the batch creates \<open>out/spk\<close> and writes no
  file.
\<close>

theorem directory_created_without_output:
  "trim_with_vad quiet_corpus [''in''] [''out''] 0 0 ''.wav'' empty_world
     = Inr \<lparr>dirs = {[''out''], [''out'', ''spk'']}, files = Map.empty,
            printed = [No_speech_found [''in'', ''spk'', ''a.wav'']]\<rparr>"
proof -
  have m: "model_init quiet_corpus = None" by (simp add: quiet_corpus_def corpus_def)
  have w: "os_walk quiet_corpus [''in''] = [([''in'', ''spk''], [''a.wav''])]"
    by (simp add: os_walk_def quiet_corpus_def join_def)
  have d: "makedirs quiet_corpus [''out'', ''spk''] empty_world
             = Inr (empty_world\<lparr>dirs := {[''out''], [''out'', ''spk'']}\<rparr>)"
    by (simp add: makedirs_def quiet_corpus_def corpus_def empty_world_def upt_rec insert_commute)
  have l: "librosa_load quiet_corpus [''in'', ''spk'', ''a.wav''] = Inr (tone, 8000)"
    by (simp add: quiet_corpus_def corpus_def)
  have v: "vad quiet_corpus 0 0 [''in'', ''spk'', ''a.wav''] = Inr []"
    by (simp add: quiet_corpus_def corpus_def)
  have pr: "print_raises quiet_corpus ln = None" for ln
    by (simp add: quiet_corpus_def corpus_def)
  have p: "process_file quiet_corpus [''in''] [''out''] 0 0 [''in'', ''spk''] ''a.wav'' empty_world
             = Inr (empty_world\<lparr>dirs := {[''out''], [''out'', ''spk'']},
                      printed := [No_speech_found [''in'', ''spk'', ''a.wav'']]\<rparr>)"
    by (simp add: process_file_def join_def corpus_paths dirname_def d try_body_def l v
          print_def pr)
       (simp add: empty_world_def)
  show ?thesis
    by (simp add: trim_with_vad_def m w lower_wav p) (simp add: empty_world_def)
qed

text \<open>
  Claim C7, amended. The output path of a file found in a directory below the input
  directory is the output directory followed by the same components. The directory of the
  output path is created for every qualifying file before its export is attempted, whether
  or not the file yields an output: whenever the file is finished without an exception
  leaving the loop, written or not, that directory exists afterwards and no file other than
  the output path has changed; and a file whose stages all succeed is written also when the
  directory did not exist before, where the export alone would have failed.
\<close>

theorem output_mirrors_input_and_directory_made_first:
  "output_path_of input_dir output_dir (join (join input_dir sub) [filename])
     = join output_dir (sub @ [filename])
   \<and> (process_file E input_dir output_dir mon moff (join input_dir sub) filename w = Inr w' \<longrightarrow>
        join output_dir sub \<in> dirs w'
        \<and> (\<forall>p. p \<noteq> join output_dir (sub @ [filename]) \<longrightarrow> files w' p = files w p))
   \<and> (output_dir \<noteq> []
        \<and> makedirs_raises E (join output_dir sub) = None
        \<and> librosa_load E (join (join input_dir sub) [filename]) = Inr (audio_data, sr)
        \<and> vad E mon moff (join (join input_dir sub) [filename]) = Inr speech_timeline
        \<and> speech_timeline \<noteq> []
        \<and> getitem_slice \<lparr>seg_data = audio_data_int16 audio_data, frame_rate = sr\<rparr>
              (fl64 (seg_start (hd speech_timeline) * 1000))
              (fl64 (seg_end (last speech_timeline) * 1000)) = Inr trimmed_segment
        \<and> export_raises E (join output_dir (sub @ [filename])) = None \<longrightarrow>
        (\<exists>w1. makedirs E (join output_dir sub) w = Inr w1
              \<and> process_file E input_dir output_dir mon moff (join input_dir sub) filename w
                  = Inr (w1\<lparr>files := (files w)(join output_dir (sub @ [filename])
                                         \<mapsto> trimmed_segment)\<rparr>))
        \<and> (join output_dir sub \<notin> dirs w \<longrightarrow>
             export E trimmed_segment (join output_dir (sub @ [filename])) w
               = Inl FileNotFoundError))"
proof (intro conjI impI)
  let ?ip = "join (join input_dir sub) [filename]"
  let ?op = "join output_dir (sub @ [filename])"
  show op: "output_path_of input_dir output_dir ?ip = ?op"
    by (rule output_path_below)
  have dn: "dirname ?op = join output_dir sub"
    by (simp add: dirname_def join_def butlast_append)
  {
    assume pf: "process_file E input_dir output_dir mon moff (join input_dir sub) filename w = Inr w'"
    show "join output_dir sub \<in> dirs w'"
      using process_file_effect(3) [OF pf] by (simp add: op dn)
    show "\<forall>p. p \<noteq> ?op \<longrightarrow> files w' p = files w p"
      using process_file_effect(4) [OF pf] by (simp add: op)
  }
  {
    assume a: "output_dir \<noteq> []
        \<and> makedirs_raises E (join output_dir sub) = None
        \<and> librosa_load E ?ip = Inr (audio_data, sr)
        \<and> vad E mon moff ?ip = Inr speech_timeline
        \<and> speech_timeline \<noteq> []
        \<and> getitem_slice \<lparr>seg_data = audio_data_int16 audio_data, frame_rate = sr\<rparr>
              (fl64 (seg_start (hd speech_timeline) * 1000))
              (fl64 (seg_end (last speech_timeline) * 1000)) = Inr trimmed_segment
        \<and> export_raises E ?op = None"
    then have ne: "join output_dir sub \<noteq> []" by (simp add: join_def)
    then obtain w1 where m: "makedirs E (join output_dir sub) w = Inr w1"
      using a makedirs_returns by blast
    have d1: "join output_dir sub \<in> dirs w1" using m by (rule makedirs_dirs)
    have f1: "files w1 = files w" using makedirs_files [OF m] by simp
    have tw: "trim_window speech_timeline
                = Inr (seg_start (hd speech_timeline), seg_end (last speech_timeline))"
      using a by (simp add: trim_window_def getitem_first getitem_last)
    have ex: "export E trimmed_segment ?op w1 = Inr (w1\<lparr>files := (files w)(?op \<mapsto> trimmed_segment)\<rparr>)"
      using a d1 f1 by (simp add: export_def dn)
    have body: "try_body E mon moff ?ip ?op w1
                  = Inr (w1\<lparr>files := (files w)(?op \<mapsto> trimmed_segment)\<rparr>)"
      using a tw ex by (simp add: try_body_def)
    have "process_file E input_dir output_dir mon moff (join input_dir sub) filename w
            = Inr (w1\<lparr>files := (files w)(?op \<mapsto> trimmed_segment)\<rparr>)"
      using m body by (simp add: process_file_def op dn)
    then show "\<exists>w1. makedirs E (join output_dir sub) w = Inr w1
              \<and> process_file E input_dir output_dir mon moff (join input_dir sub) filename w
                  = Inr (w1\<lparr>files := (files w)(?op \<mapsto> trimmed_segment)\<rparr>)"
      using m by blast
    assume "join output_dir sub \<notin> dirs w"
    then show "export E trimmed_segment ?op w = Inl FileNotFoundError"
      using ne by (simp add: export_def dn)
  }
qed

theorem output_mirrors_input_and_directory_made_first_witness:
  "[''out''] \<noteq> ([] :: path)
   \<and> makedirs_raises corpus (join [''out''] [''spk'']) = None
   \<and> librosa_load corpus (join (join [''in''] [''spk'']) [''c.WAV'']) = Inr (tone, 8000)
   \<and> vad corpus 0 0 (join (join [''in''] [''spk'']) [''c.WAV''])
       = Inr [\<lparr>seg_start = 1 / 1024, seg_end = 1 / 512\<rparr>]
   \<and> [\<lparr>seg_start = 1 / 1024, seg_end = 1 / 512\<rparr>] \<noteq> []
   \<and> getitem_slice \<lparr>seg_data = audio_data_int16 tone, frame_rate = 8000\<rparr>
         (fl64 (seg_start (hd [\<lparr>seg_start = 1 / 1024, seg_end = 1 / 512\<rparr>]) * 1000))
         (fl64 (seg_end (last [\<lparr>seg_start = 1 / 1024, seg_end = 1 / 512\<rparr>]) * 1000))
       = Inr \<lparr>seg_data = [8191, 0, - 8191, - 16383, - 24575, - 32767, - 24575, - 16383],
              frame_rate = 8000\<rparr>
   \<and> export_raises corpus (join [''out''] ([''spk''] @ [''c.WAV''])) = None
   \<and> join [''out''] [''spk''] \<notin> dirs empty_world
   \<and> output_path_of [''in''] [''out''] (join (join [''in''] [''spk'']) [''c.WAV''])
       = [''out'', ''spk'', ''c.WAV'']
   \<and> export corpus
         \<lparr>seg_data = [8191, 0, - 8191, - 16383, - 24575, - 32767, - 24575, - 16383],
          frame_rate = 8000\<rparr> [''out'', ''spk'', ''c.WAV''] empty_world
       = Inl FileNotFoundError
   \<and> process_file corpus [''in''] [''out''] 0 0 (join [''in''] [''spk'']) ''c.WAV'' empty_world
       = Inr \<lparr>dirs = {[''out''], [''out'', ''spk'']},
              files = [[''out'', ''spk'', ''c.WAV''] \<mapsto>
                         \<lparr>seg_data = [8191, 0, - 8191, - 16383, - 24575, - 32767, - 24575, - 16383],
                          frame_rate = 8000\<rparr>],
              printed = []\<rparr>
   \<and> join [''out''] [''spk'']
       \<in> dirs \<lparr>dirs = {[''out''], [''out'', ''spk'']},
            files = [[''out'', ''spk'', ''c.WAV''] \<mapsto>
                       \<lparr>seg_data = [8191, 0, - 8191, - 16383, - 24575, - 32767, - 24575, - 16383],
                        frame_rate = 8000\<rparr>],
            printed = []\<rparr>"
proof -
  let ?seg = "\<lparr>seg_data = [8191, 0, - 8191, - 16383, - 24575, - 32767, - 24575, - 16383],
               frame_rate = 8000\<rparr> :: audio_segment"
  let ?w' = "\<lparr>dirs = {[''out''], [''out'', ''spk'']},
              files = [[''out'', ''spk'', ''c.WAV''] \<mapsto> ?seg], printed = []\<rparr>"
  have h1: "[''out''] \<noteq> ([] :: path)" by simp
  have h2: "makedirs_raises corpus (join [''out''] [''spk'']) = None" by (simp add: corpus_def)
  have h3: "librosa_load corpus (join (join [''in''] [''spk'']) [''c.WAV'']) = Inr (tone, 8000)"
    by (simp add: corpus_def join_def)
  have h4: "vad corpus 0 0 (join (join [''in''] [''spk'']) [''c.WAV''])
              = Inr [\<lparr>seg_start = 1 / 1024, seg_end = 1 / 512\<rparr>]"
    by (simp add: corpus_def join_def)
  have h5: "[\<lparr>seg_start = 1 / 1024, seg_end = 1 / 512\<rparr>] \<noteq> []" by simp
  have h6: "getitem_slice \<lparr>seg_data = audio_data_int16 tone, frame_rate = 8000\<rparr>
         (fl64 (seg_start (hd [\<lparr>seg_start = 1 / 1024, seg_end = 1 / 512\<rparr>]) * 1000))
         (fl64 (seg_end (last [\<lparr>seg_start = 1 / 1024, seg_end = 1 / 512\<rparr>]) * 1000))
       = Inr ?seg"
    by (simp add: tone_int16 fl64_ms tone_slice)
  have h7: "export_raises corpus (join [''out''] ([''spk''] @ [''c.WAV''])) = None"
    by (simp add: corpus_def)
  have h8: "join [''out''] [''spk''] \<notin> dirs empty_world" by (simp add: empty_world_def)
  have mk: "makedirs corpus (join [''out''] [''spk'']) empty_world
              = Inr (empty_world\<lparr>dirs := {[''out''], [''out'', ''spk'']}\<rparr>)"
    by (simp add: join_def corpus_makedirs) (simp add: empty_world_def)
  note t = output_mirrors_input_and_directory_made_first
             [of "[''in'']" "[''out'']" "[''spk'']" "''c.WAV''" corpus 0 0 empty_world ?w'
                 tone 8000 "[\<lparr>seg_start = 1 / 1024, seg_end = 1 / 512\<rparr>]" ?seg]
  from t have c1: "output_path_of [''in''] [''out''] (join (join [''in''] [''spk'']) [''c.WAV''])
       = [''out'', ''spk'', ''c.WAV'']"
    by (simp add: join_def)
  from t h1 h2 h3 h4 h5 h6 h7 h8
  have c2: "export corpus ?seg (join [''out''] ([''spk''] @ [''c.WAV''])) empty_world
              = Inl FileNotFoundError"
    by blast
  from t h1 h2 h3 h4 h5 h6 h7
  have "\<exists>w1. makedirs corpus (join [''out''] [''spk'']) empty_world = Inr w1
          \<and> process_file corpus [''in''] [''out''] 0 0 (join [''in''] [''spk'']) ''c.WAV'' empty_world
              = Inr (w1\<lparr>files := (files empty_world)(join [''out''] ([''spk''] @ [''c.WAV''])
                                     \<mapsto> ?seg)\<rparr>)"
    by blast
  then have c3: "process_file corpus [''in''] [''out''] 0 0 (join [''in''] [''spk'']) ''c.WAV'' empty_world
                   = Inr ?w'"
    by (auto simp: mk) (simp add: empty_world_def join_def)
  from t c3 have c4: "join [''out''] [''spk''] \<in> dirs ?w'"
    by blast
  from c2 have c2': "export corpus ?seg [''out'', ''spk'', ''c.WAV''] empty_world
                       = Inl FileNotFoundError"
    by (simp add: join_def)
  show ?thesis using h1 h2 h3 h4 h5 h6 h7 h8 c1 c2' c3 c4 by blast
qed

subsection \<open>The conversion to 16 bits\<close>



text \<open>
  Claim C10 says that every sample of magnitude above \<open>32768/32767\<close> gives a product
  outside the 16-bit range and a wrapped result. The \<open>float32\<close> sample
  \<open>-(1 + 2^-15 + 2^-23)\<close> has that magnitude; its product truncates to \<open>-32768\<close>, which
  is in range, and the result is \<open>-32768\<close>, unchanged and equal to the nearest
  representable value.
\<close>

theorem sample_below_minus_one_not_wrapped:
  "32768 / 32767 < \<bar>- (8388865 / 8388608) :: rat\<bar>
   \<and> fl32 (- (8388865 / 8388608) * 32767) = - (8388609 / 256)
   \<and> trunc_zero (fl32 (- (8388865 / 8388608) * 32767)) = - 32768
   \<and> sint (sample_int16 (- (8388865 / 8388608))) = - 32768"
proof -
  note t = trunc_samples(2)
  have "sint (sample_int16 (- (8388865 / 8388608))) = - 32768"
    by (simp only: sample_int16_def np_int16_def fl32_samples t) (simp add: sint16_id)
  then show ?thesis by (simp only: fl32_samples t) simp
qed

text \<open>
  Claim C10, amended. For a sample in \<open>[-1, 1]\<close> the result lies in \<open>[-32767, 32767]\<close>.
  For a sample of at least \<open>32768/32767\<close>, and for a sample of at most \<open>-32769/32767\<close>,
  the truncated product lies outside the 16-bit range (and, for a sample of magnitude up to
  \<open>65536\<close>, below \<open>2^31\<close> in magnitude); the result is then the truncated product
  reduced modulo \<open>2^16\<close> into \<open>[-32768, 32767]\<close>, not clamped, and it differs from the
  truncated product. For every sample the result differs from the truncated product
  exactly when that is at least \<open>32768\<close> or at most \<open>-32769\<close>.
\<close>

theorem sample_int16_range_and_wrap:
  "(- 1 \<le> s \<and> s \<le> 1 \<longrightarrow>
      - 32767 \<le> sint (sample_int16 s) \<and> sint (sample_int16 s) \<le> 32767)
   \<and> (32768 / 32767 \<le> s \<and> s \<le> 65536 \<longrightarrow>
        32768 \<le> trunc_zero (fl32 (s * 32767))
        \<and> trunc_zero (fl32 (s * 32767)) < 2 ^ 31
        \<and> sint (sample_int16 s) = (trunc_zero (fl32 (s * 32767)) + 32768) mod 65536 - 32768
        \<and> sint (sample_int16 s) < trunc_zero (fl32 (s * 32767)))
   \<and> (s \<le> - (32769 / 32767) \<and> - 65536 \<le> s \<longrightarrow>
        trunc_zero (fl32 (s * 32767)) \<le> - 32769
        \<and> - (2 ^ 31) < trunc_zero (fl32 (s * 32767))
        \<and> sint (sample_int16 s) = (trunc_zero (fl32 (s * 32767)) + 32768) mod 65536 - 32768
        \<and> trunc_zero (fl32 (s * 32767)) < sint (sample_int16 s))
   \<and> (sint (sample_int16 s) \<noteq> trunc_zero (fl32 (s * 32767))
        \<longleftrightarrow> 32768 \<le> trunc_zero (fl32 (s * 32767))
             \<or> trunc_zero (fl32 (s * 32767)) \<le> - 32769)"
proof -
  have w: "sint (sample_int16 u) = (trunc_zero (fl32 (u * 32767)) + 32768) mod 65536 - 32768"
    for u
    by (simp add: sample_int16_def np_int16_def sint16_wrap)
  have above: "32768 \<le> trunc_zero (fl32 (u * 32767))
               \<and> trunc_zero (fl32 (u * 32767)) \<le> 2147418112"
    if u: "of_int m / 32767 \<le> u" "u \<le> 65536" and m: "m = 32768 \<or> m = 32769" for u :: rat and m :: int
  proof -
    have x1: "of_int m \<le> u * 32767" using u(1) by (simp add: field_simps)
    have x2: "u * 32767 \<le> of_int 32767 * 2 ^ 16" using u(2) by simp
    have x0: "0 < u * 32767" using x1 m by auto
    have "of_int m \<le> fl32 (u * 32767)" using m x1 by (intro fl32_ge_int) auto
    then have f1: "of_int 32768 \<le> fl32 (u * 32767)" using m by auto
    have "u * 32767 < 2 ^ (16 + 24)" using x2 by simp
    with x0 x2 have "fl32 (u * 32767) \<le> of_int 32767 * 2 ^ 16" by (rule fl32_le_scaled)
    then have f2: "fl32 (u * 32767) \<le> of_int 2147418112" by simp
    have f0: "0 \<le> fl32 (u * 32767)" using f1 by simp
    have "32768 \<le> trunc_zero (fl32 (u * 32767))" using f1 by (intro trunc_zero_ge) simp_all
    moreover have "trunc_zero (fl32 (u * 32767)) \<le> 2147418112"
      using f0 f2 by (rule trunc_zero_le)
    ultimately show ?thesis by simp
  qed
  have inside: "- 32767 \<le> sint (sample_int16 s) \<and> sint (sample_int16 s) \<le> 32767"
    if "- 1 \<le> s \<and> s \<le> 1"
  proof -
    from that have "\<bar>s * 32767\<bar> \<le> 32767" by (simp add: abs_mult abs_le_iff)
    then have b: "\<bar>fl32 (s * 32767)\<bar> \<le> 32767" by (rule fl32_bound)
    have "\<bar>of_int (trunc_zero (fl32 (s * 32767))) :: rat\<bar> \<le> 32767"
      using trunc_zero_abs_le [of "fl32 (s * 32767)"] b by linarith
    then have t: "\<bar>trunc_zero (fl32 (s * 32767))\<bar> \<le> 32767" by linarith
    then have "sint (sample_int16 s) = trunc_zero (fl32 (s * 32767))"
      by (simp add: sample_int16_def np_int16_def sint16_id)
    with t show ?thesis by linarith
  qed
  have pos: "32768 \<le> trunc_zero (fl32 (s * 32767))
        \<and> trunc_zero (fl32 (s * 32767)) < 2 ^ 31
        \<and> sint (sample_int16 s) = (trunc_zero (fl32 (s * 32767)) + 32768) mod 65536 - 32768
        \<and> sint (sample_int16 s) < trunc_zero (fl32 (s * 32767))"
    if "32768 / 32767 \<le> s \<and> s \<le> 65536"
  proof -
    have a: "32768 \<le> trunc_zero (fl32 (s * 32767))
             \<and> trunc_zero (fl32 (s * 32767)) \<le> 2147418112"
      using that above [where u = s and m = 32768] by simp
    have "sint (sample_int16 s) \<le> 32767" using sint16_range [of "sample_int16 s"] by simp
    then show ?thesis using a w [of s] by simp
  qed
  have neg: "trunc_zero (fl32 (s * 32767)) \<le> - 32769
        \<and> - (2 ^ 31) < trunc_zero (fl32 (s * 32767))
        \<and> sint (sample_int16 s) = (trunc_zero (fl32 (s * 32767)) + 32768) mod 65536 - 32768
        \<and> trunc_zero (fl32 (s * 32767)) < sint (sample_int16 s)"
    if "s \<le> - (32769 / 32767) \<and> - 65536 \<le> s"
  proof -
    have "32769 / 32767 \<le> - s" "- s \<le> 65536" using that by simp_all
    then have "32768 \<le> trunc_zero (fl32 (- s * 32767))
             \<and> trunc_zero (fl32 (- s * 32767)) \<le> 2147418112"
      using above [where u = "- s" and m = 32769] by simp
    moreover have "trunc_zero (fl32 (- s * 32767)) = - trunc_zero (fl32 (s * 32767))"
      using fl32_minus [of "s * 32767"] trunc_zero_minus [of "fl32 (s * 32767)"] by simp
    ultimately have a: "trunc_zero (fl32 (s * 32767)) \<le> - 32768
                        \<and> - 2147418112 \<le> trunc_zero (fl32 (s * 32767))" by simp
    have "32769 \<le> trunc_zero (fl32 (- s * 32767))"
    proof -
      have x1: "of_int 32769 \<le> - s * 32767" using that by (simp add: field_simps)
      then have "of_int 32769 \<le> fl32 (- s * 32767)" by (intro fl32_ge_int) simp_all
      then show ?thesis by (intro trunc_zero_ge) simp_all
    qed
    then have b: "trunc_zero (fl32 (s * 32767)) \<le> - 32769"
      using fl32_minus [of "s * 32767"] trunc_zero_minus [of "fl32 (s * 32767)"] by simp
    have "- 32768 \<le> sint (sample_int16 s)" using sint16_range [of "sample_int16 s"] by simp
    then show ?thesis using a b w [of s] by simp
  qed
  have iff: "sint (sample_int16 s) \<noteq> trunc_zero (fl32 (s * 32767))
          \<longleftrightarrow> 32768 \<le> trunc_zero (fl32 (s * 32767)) \<or> trunc_zero (fl32 (s * 32767)) \<le> - 32769"
  proof (cases "- 32768 \<le> trunc_zero (fl32 (s * 32767)) \<and> trunc_zero (fl32 (s * 32767)) \<le> 32767")
    case True
    then have "sint (sample_int16 s) = trunc_zero (fl32 (s * 32767))"
      by (simp add: sample_int16_def np_int16_def sint16_id)
    with True show ?thesis by simp
  next
    case False
    with sint16_range [of "sample_int16 s"] show ?thesis by linarith
  qed
  show ?thesis using inside pos neg iff by blast
qed

theorem sample_int16_range_and_wrap_witness:
  "- 1 \<le> (1 :: rat) \<and> (1 :: rat) \<le> 1
   \<and> sint (sample_int16 1) = 32767
   \<and> 32768 / 32767 \<le> (5 / 4 :: rat) \<and> (5 / 4 :: rat) \<le> 65536
   \<and> trunc_zero (fl32 (5 / 4 * 32767)) = 40958
   \<and> sint (sample_int16 (5 / 4)) = - 24578
   \<and> - (5 / 4 :: rat) \<le> - (32769 / 32767) \<and> - 65536 \<le> - (5 / 4 :: rat)
   \<and> trunc_zero (fl32 (- (5 / 4) * 32767)) = - 40958
   \<and> sint (sample_int16 (- (5 / 4))) = 24578"
proof -
  have t1: "trunc_zero (fl32 (5 / 4 * 32767)) = 40958"
    by (simp only: fl32_samples trunc_samples)
  have t2: "trunc_zero (fl32 (- (5 / 4) * 32767)) = - 40958"
    by (simp only: fl32_samples floor_samples)
  have h1: "32768 / 32767 \<le> (5 / 4 :: rat) \<and> (5 / 4 :: rat) \<le> 65536" by simp
  have h2: "- (5 / 4 :: rat) \<le> - (32769 / 32767) \<and> - 65536 \<le> - (5 / 4 :: rat)" by simp
  have h0: "- 1 \<le> (1 :: rat) \<and> (1 :: rat) \<le> 1" by simp
  from sample_int16_range_and_wrap [of "5 / 4"] h1
  have "sint (sample_int16 (5 / 4)) = (trunc_zero (fl32 (5 / 4 * 32767)) + 32768) mod 65536 - 32768"
    by blast
  then have a: "sint (sample_int16 (5 / 4)) = - 24578" by (simp only: t1) simp
  from sample_int16_range_and_wrap [of "- (5 / 4)"] h2
  have "sint (sample_int16 (- (5 / 4)))
          = (trunc_zero (fl32 (- (5 / 4) * 32767)) + 32768) mod 65536 - 32768"
    by blast
  then have b: "sint (sample_int16 (- (5 / 4))) = 24578" by (simp only: t2) simp
  have c: "sint (sample_int16 1) = 32767"
    using fl32_samples(2) by (simp add: sample_int16_def np_int16_def trunc_samples(4))
  show ?thesis using h0 h1 h2 t1 t2 a b c by blast
qed

subsection \<open>The slice\<close>

text \<open>
  Claim C5 says that a boundary time \<open>t\<close> becomes the frame offset
  \<open>round(t \<times> frame_rate)\<close>. The routine hands the boundaries to the audio library in
  milliseconds, and the library truncates: at 8000 Hz the window from \<open>1/1024\<close> s to
  \<open>1/512\<close> s is the frames 7 to 14, where the rounded offsets 8 and 16 give the frames
  8 to 15.
\<close>

theorem slice_offsets_not_rounded:
  "getitem_slice tone_segment (fl64 (1 / 1024 * 1000)) (fl64 (1 / 512 * 1000))
     = Inr \<lparr>seg_data = [8191, 0, - 8191, - 16383, - 24575, - 32767, - 24575, - 16383],
            frame_rate = 8000\<rparr>
   \<and> spec_slice tone_segment (1 / 1024) (1 / 512)
     = [0, - 8191, - 16383, - 24575, - 32767, - 24575, - 16383, - 8191]"
proof -
  have "getitem_slice tone_segment (fl64 (1 / 1024 * 1000)) (fl64 (1 / 512 * 1000))
     = Inr \<lparr>seg_data = [8191, 0, - 8191, - 16383, - 24575, - 32767, - 24575, - 16383],
            frame_rate = 8000\<rparr>"
    by (simp only: ms_values fl64_ms tone_segment_data tone_slice)
  moreover have "spec_slice tone_segment (1 / 1024) (1 / 512)
     = [0, - 8191, - 16383, - 24575, - 32767, - 24575, - 16383, - 8191]"
    unfolding spec_slice_def tone_segment_values by (simp add: tone_segment_data)
  ultimately show ?thesis by (rule conjI)
qed

text \<open>
  Claim C5, amended. A boundary time \<open>t\<close> in seconds is multiplied by 1000, a \<open>float\<close>
  product; the milliseconds are capped at the duration of the segment, which is
  \<open>1000 \<times> (frames / frame_rate)\<close> rounded to whole milliseconds; and the frame offset is
  the capped value times \<open>frame_rate / 1000\<close>, each operation a \<open>float\<close> operation,
  with the fractional part discarded. For boundaries that are not negative and whose
  offsets are in order and within the data, the slice is the contiguous frames from the
  start offset up to the end offset.
\<close>

theorem getitem_slice_truncates:
  assumes "0 < frame_rate seg"
    and "len = round_half_even (fl64 (1000 * fl64 (fl64 (of_nat (length (seg_data seg)))
                                                   / fl64 (of_int (frame_rate seg)))))"
    and "0 \<le> start_seconds" and "0 \<le> end_seconds"
    and "start_ms = fl64 (start_seconds * 1000)" and "end_ms = fl64 (end_seconds * 1000)"
    and "so = \<lfloor>fl64 ((if of_int len < start_ms then fl64 (of_int len) else start_ms)
                      * fl64 (fl64 (of_int (frame_rate seg)) / 1000))\<rfloor>"
    and "eo = \<lfloor>fl64 ((if of_int len < end_ms then fl64 (of_int len) else end_ms)
                      * fl64 (fl64 (of_int (frame_rate seg)) / 1000))\<rfloor>"
    and "so \<le> eo" and "eo \<le> int (length (seg_data seg))"
  shows "getitem_slice seg start_ms end_ms
           = Inr (seg\<lparr>seg_data := take (nat (eo - so)) (drop (nat so) (seg_data seg))\<rparr>)
       \<and> 0 \<le> so"
proof -
  have sl: "seg_len seg = Inr len" using assms(1,2) by (simp add: seg_len_def)
  have len0: "0 \<le> len" using assms(1) sl by (rule seg_len_nonneg)
  have s0: "0 \<le> start_ms" unfolding assms(5) using assms(3) by (intro fl64_nonneg) simp
  have e0: "0 \<le> end_ms" unfolding assms(6) using assms(4) by (intro fl64_nonneg) simp
  have ms: "0 \<le> min_len start_ms len" using len0 s0 by (rule min_len_nonneg)
  have me: "0 \<le> min_len end_ms len" using len0 e0 by (rule min_len_nonneg)
  have fs: "0 \<le> frame_count_ms seg (min_len start_ms len)"
    using assms(1) ms by (rule frame_count_ms_nonneg)
  have fe: "0 \<le> frame_count_ms seg (min_len end_ms len)"
    using assms(1) me by (rule frame_count_ms_nonneg)
  have ps: "parse_position seg len (min_len start_ms len) = so"
    using ms fs unfolding assms(7)
    by (simp add: parse_position_def trunc_zero_def frame_count_ms_def min_len_def)
  have pe: "parse_position seg len (min_len end_ms len) = eo"
    using me fe unfolding assms(8)
    by (simp add: parse_position_def trunc_zero_def frame_count_ms_def min_len_def)
  have so0: "0 \<le> so" using ps fs ms by (auto simp: parse_position_def trunc_zero_def)
  note w = py_slice_within [OF so0 assms(9,10)]
  define data where "data = take (nat (eo - so)) (drop (nat so) (seg_data seg))"
  have d1: "py_slice (seg_data seg) so eo = data" using w(1) by (simp add: data_def)
  have d2: "int (length data) = eo - so" using w(2) by (simp add: data_def)
  have "getitem_slice seg start_ms end_ms = Inr (seg\<lparr>seg_data := data\<rparr>)"
    by (simp add: getitem_slice_def sl ps pe Let_def d1 d2)
  then show ?thesis using so0 by (simp add: data_def)
qed

theorem getitem_slice_truncates_witness:
  "0 < frame_rate tone_segment
   \<and> 2 = round_half_even (fl64 (1000 * fl64 (fl64 (of_nat (length (seg_data tone_segment)))
                                               / fl64 (of_int (frame_rate tone_segment)))))
   \<and> (0 :: rat) \<le> 1 / 1024 \<and> (0 :: rat) \<le> 1
   \<and> 7 = \<lfloor>fl64 ((if of_int 2 < fl64 (1 / 1024 * 1000) then fl64 (of_int 2)
                    else fl64 (1 / 1024 * 1000))
                   * fl64 (fl64 (of_int (frame_rate tone_segment)) / 1000))\<rfloor>
   \<and> 16 = \<lfloor>fl64 ((if of_int 2 < fl64 (1 * 1000) then fl64 (of_int 2) else fl64 (1 * 1000))
                    * fl64 (fl64 (of_int (frame_rate tone_segment)) / 1000))\<rfloor>
   \<and> (7 :: int) \<le> 16 \<and> 16 \<le> int (length (seg_data tone_segment))
   \<and> getitem_slice tone_segment (fl64 (1 / 1024 * 1000)) (fl64 (1 * 1000))
       = Inr \<lparr>seg_data = [8191, 0, - 8191, - 16383, - 24575, - 32767, - 24575, - 16383, - 8191],
              frame_rate = 8000\<rparr>"
proof -
  have h1: "0 < frame_rate tone_segment" by (simp add: tone_segment_def)
  note h2 = tone_window_values(1) [symmetric]
  have h3: "(0 :: rat) \<le> 1 / 1024" and h4: "(0 :: rat) \<le> 1" by simp_all
  note h7 = tone_window_values(2) [symmetric]
  note h8 = tone_window_values(3) [symmetric]
  have h9: "(7 :: int) \<le> 16" by simp
  have h10: "16 \<le> int (length (seg_data tone_segment))" by (simp add: tone_segment_data)
  from getitem_slice_truncates [OF h1 h2 h3 h4 refl refl h7 h8 h9 h10]
  have "getitem_slice tone_segment (fl64 (1 / 1024 * 1000)) (fl64 (1 * 1000))
          = Inr (tone_segment\<lparr>seg_data := take (nat (16 - 7)) (drop (nat 7) (seg_data tone_segment))\<rparr>)"
    by (rule conjunct1)
  then have "getitem_slice tone_segment (fl64 (1 / 1024 * 1000)) (fl64 (1 * 1000))
       = Inr \<lparr>seg_data = [8191, 0, - 8191, - 16383, - 24575, - 32767, - 24575, - 16383, - 8191],
              frame_rate = 8000\<rparr>"
    by (simp add: tone_segment_data)
  then show ?thesis using h1 h2 h3 h4 h7 h8 h9 h10 by blast
qed

section \<open>Properties of the metadata loader\<close>

subsection \<open>Dropping duplicates\<close>

lemma keep_first_distinct:
  "distinct (map (\<lambda>r. r ''path'') (keep_first seen rs))
   \<and> (\<forall>r \<in> set (keep_first seen rs). r ''path'' \<notin> set seen)"
proof (induction rs arbitrary: seen)
  case Nil
  show ?case by simp
next
  case (Cons r rs)
  show ?case
  proof (cases "r ''path'' \<in> set seen")
    case True
    then show ?thesis using Cons.IH [of seen] by simp
  next
    case False
    then show ?thesis using Cons.IH [of "r ''path'' # seen"] by auto
  qed
qed

lemma keep_first_filter:
  "filter (\<lambda>r. r ''path'' = v) (keep_first seen rs)
     = (if v \<in> set seen then []
        else case find (\<lambda>r. r ''path'' = v) rs of None \<Rightarrow> [] | Some r \<Rightarrow> [r])"
proof (induction rs arbitrary: seen)
  case Nil
  show ?case by simp
next
  case (Cons r rs)
  show ?case
  proof (cases "r ''path'' \<in> set seen")
    case True
    then show ?thesis using Cons.IH [of seen] by auto
  next
    case False
    then show ?thesis using Cons.IH [of "r ''path'' # seen"] by auto
  qed
qed

subsection \<open>The first row with a given path\<close>

lemma find_append_first:
  "find P (xs @ ys) = (case find P xs of None \<Rightarrow> find P ys | Some x \<Rightarrow> Some x)"
  by (induction xs) simp_all

lemma find_map_rows: "find P (map g xs) = map_option g (find (\<lambda>x. P (g x)) xs)"
  by (induction xs) simp_all

lemma find_concat_map_first:
  assumes "\<And>x. f x \<noteq> [] \<and> (\<forall>y \<in> set (f x). P y = Q x)"
  shows "find P (concat (map f xs)) = map_option (\<lambda>x. hd (f x)) (find Q xs)"
proof (induction xs)
  case Nil
  show ?case by simp
next
  case (Cons x xs)
  obtain y ys where fx: "f x = y # ys" using assms [of x] by (cases "f x") auto
  show ?case
  proof (cases "Q x")
    case True
    then have "P y" using assms [of x] fx by simp
    then show ?thesis using True fx by simp
  next
    case False
    then have "\<forall>z \<in> set (f x). \<not> P z" using assms [of x] by simp
    then have "find P (f x) = None" by (simp add: find_None_iff)
    then show ?thesis using False Cons.IH by (simp add: find_append_first)
  qed
qed

lemma find_gather:
  assumes "gather E dir fs = Inr dfs"
  shows "find (\<lambda>r. r ''path'' = v) (concat (map rows dfs))
           = map_option (\<lambda>(f, r). r(''source_file'' \<mapsto> f)) (earliest_row E dir fs v)"
  using assms
proof (induction fs arbitrary: dfs)
  case Nil
  then show ?case by simp
next
  case (Cons f fs)
  show ?case
  proof (cases "read_csv E (join dir [f])")
    case None
    then show ?thesis using Cons by simp
  next
    case (Some res)
    show ?thesis
    proof (cases res)
      case (Inl e)
      then show ?thesis using Cons.prems Some by simp
    next
      case (Inr d)
      then obtain rest where
        g: "gather E dir fs = Inr rest" and dfs: "dfs = set_source_file f d # rest"
        using Cons.prems Some by (auto split: sum.splits)
      have ih: "find (\<lambda>r. r ''path'' = v) (concat (map rows rest))
                  = map_option (\<lambda>(f, r). r(''source_file'' \<mapsto> f)) (earliest_row E dir fs v)"
        using Cons.IH [OF g] .
      have here: "find (\<lambda>r. r ''path'' = v) (rows (set_source_file f d))
                    = map_option (\<lambda>r. r(''source_file'' \<mapsto> f)) (find (\<lambda>r. r ''path'' = v) (rows d))"
        by (simp add: set_source_file_def find_map_rows)
      show ?thesis
        using Some Inr ih here
        by (simp add: dfs find_append_first fun_upd_def split: option.splits)
    qed
  qed
qed

subsection \<open>Merging the durations\<close>

lemma merge_row_keeps:
  "merge_row lcol rcol l ds \<noteq> []
   \<and> (\<forall>m \<in> set (merge_row lcol rcol l ds).
         \<forall>c. c \<noteq> ''duration_ms'' \<and> c \<noteq> lcol \<and> c \<noteq> rcol \<longrightarrow> m c = l c)"
  by (auto simp: merge_row_def Let_def)

lemma merge_durations_first:
  assumes "merge_durations E dir combined_df = Inr merged"
  shows "\<exists>g. (\<forall>l c. c \<notin> {''duration_ms'', ''duration_ms_x'', ''duration_ms_y''} \<longrightarrow> g l c = l c)
            \<and> (\<forall>v. find (\<lambda>r. r ''path'' = v) (rows merged)
                       = map_option g (find (\<lambda>r. r ''path'' = v) (rows combined_df)))"
proof (cases "read_csv E (join dir [''clip_durations.tsv''])")
  case None
  then have "merged = combined_df" using assms by (simp add: merge_durations_def)
  then have "(\<forall>l c. c \<notin> {''duration_ms'', ''duration_ms_x'', ''duration_ms_y''} \<longrightarrow> id l c = l c)
            \<and> (\<forall>v. find (\<lambda>r. r ''path'' = v) (rows merged)
                       = map_option id (find (\<lambda>r. r ''path'' = v) (rows combined_df)))"
    by (simp add: option.map_id)
  then show ?thesis by blast
next
  case (Some res)
  then obtain durations_df d where
    r: "rename_durations durations_df = Inr d" and m: "pd_merge combined_df d = Inr merged"
    using assms by (auto simp: merge_durations_def split: sum.splits)
  define lcol where "lcol = (if ''duration_ms'' \<in> set (columns combined_df)
                              then ''duration_ms_x'' else ''duration_ms'')"
  define rcol where "rcol = (if ''duration_ms'' \<in> set (columns combined_df)
                              then ''duration_ms_y'' else ''duration_ms'')"
  have rows: "rows merged = concat (map (\<lambda>l. merge_row lcol rcol l (rows d)) (rows combined_df))"
    using m by (auto simp: pd_merge_def Let_def lcol_def rcol_def split: if_splits)
  have cols: "lcol \<in> {''duration_ms'', ''duration_ms_x'', ''duration_ms_y''}"
             "rcol \<in> {''duration_ms'', ''duration_ms_x'', ''duration_ms_y''}"
    by (simp_all add: lcol_def rcol_def)
  define g where "g = (\<lambda>l. hd (merge_row lcol rcol l (rows d)))"
  have k: "merge_row lcol rcol l (rows d) \<noteq> []
           \<and> (\<forall>m \<in> set (merge_row lcol rcol l (rows d)).
                 \<forall>c. c \<noteq> ''duration_ms'' \<and> c \<noteq> lcol \<and> c \<noteq> rcol \<longrightarrow> m c = l c)" for l
    by (rule merge_row_keeps)
  have p: "lcol \<noteq> ''path''" "rcol \<noteq> ''path''" by (simp_all add: lcol_def rcol_def)
  have same: "merge_row lcol rcol l (rows d) \<noteq> []
              \<and> (\<forall>y \<in> set (merge_row lcol rcol l (rows d)). (y ''path'' = v) = (l ''path'' = v))"
    for l v
    using k [of l] p by auto
  have f: "find (\<lambda>r. r ''path'' = v) (rows merged)
             = map_option g (find (\<lambda>r. r ''path'' = v) (rows combined_df))" for v
    unfolding rows g_def by (rule find_concat_map_first) (rule same)
  have a: "g l c = l c" if "c \<notin> {''duration_ms'', ''duration_ms_x'', ''duration_ms_y''}" for l c
  proof -
    have "hd (merge_row lcol rcol l (rows d)) \<in> set (merge_row lcol rcol l (rows d))"
      using k [of l] by simp
    moreover have "c \<noteq> ''duration_ms'' \<and> c \<noteq> lcol \<and> c \<noteq> rcol" using that cols by auto
    ultimately show ?thesis using k [of l] by (simp add: g_def)
  qed
  show ?thesis using a f by blast
qed

subsection \<open>The run\<close>

lemma run_saved:
  assumes "run E self = Inr (Saved out_path df a)"
  shows "\<exists>dfs merged written.
           gather E (self_input_dir self) files_to_include = Inr dfs
           \<and> merge_durations E (self_input_dir self) (pd_concat dfs) = Inr merged
           \<and> df = merged\<lparr>rows := keep_first [] (rows merged)\<rparr>
           \<and> to_csv E df = Inr written
           \<and> out_path = join (self_output_dir self) [''complete_data.tsv'']
           \<and> a = \<lparr>art_name = ''data_loading'', art_type = ''dataset'',
                    art_file = out_path, file_path = out_path,
                    size_bytes = length written, num_rows = length (rows df)\<rparr>"
  using assms
  by (auto simp: run_def drop_duplicates_def save_and_log_def Let_def
           split: option.splits sum.splits if_splits)

subsection \<open>The small corpus of tables, evaluated\<close>

lemma shelf_gather:
  "gather shelf [''cv''] files_to_include
     = Inr [\<lparr>columns = [''path'', ''sentence'', ''source_file''],
             rows = [[''path'' \<mapsto> ''a.mp3'', ''sentence'' \<mapsto> ''one'', ''source_file'' \<mapsto> ''train.tsv''],
                     [''path'' \<mapsto> ''b.mp3'', ''sentence'' \<mapsto> ''two'', ''source_file'' \<mapsto> ''train.tsv'']]\<rparr>,
            \<lparr>columns = [''path'', ''sentence'', ''source_file''],
             rows = [[''path'' \<mapsto> ''a.mp3'', ''sentence'' \<mapsto> ''uno'', ''source_file'' \<mapsto> ''dev.tsv''],
                     [''path'' \<mapsto> ''c.mp3'', ''sentence'' \<mapsto> ''three'', ''source_file'' \<mapsto> ''dev.tsv'']]\<rparr>]"
  by (simp add: files_to_include_def join_def shelf_def set_source_file_def)

lemma shelf_merge:
  "merge_durations shelf [''cv'']
     (pd_concat [\<lparr>columns = [''path'', ''sentence'', ''source_file''],
             rows = [[''path'' \<mapsto> ''a.mp3'', ''sentence'' \<mapsto> ''one'', ''source_file'' \<mapsto> ''train.tsv''],
                     [''path'' \<mapsto> ''b.mp3'', ''sentence'' \<mapsto> ''two'', ''source_file'' \<mapsto> ''train.tsv'']]\<rparr>,
            \<lparr>columns = [''path'', ''sentence'', ''source_file''],
             rows = [[''path'' \<mapsto> ''a.mp3'', ''sentence'' \<mapsto> ''uno'', ''source_file'' \<mapsto> ''dev.tsv''],
                     [''path'' \<mapsto> ''c.mp3'', ''sentence'' \<mapsto> ''three'', ''source_file'' \<mapsto> ''dev.tsv'']]\<rparr>])
   = Inr \<lparr>columns = [''path'', ''sentence'', ''source_file'', ''duration_ms''],
          rows = [[''path'' \<mapsto> ''a.mp3'', ''sentence'' \<mapsto> ''one'', ''source_file'' \<mapsto> ''train.tsv'',
                   ''duration_ms'' \<mapsto> ''1000''],
                  [''path'' \<mapsto> ''a.mp3'', ''sentence'' \<mapsto> ''one'', ''source_file'' \<mapsto> ''train.tsv'',
                   ''duration_ms'' \<mapsto> ''1001''],
                  [''path'' \<mapsto> ''b.mp3'', ''sentence'' \<mapsto> ''two'', ''source_file'' \<mapsto> ''train.tsv''],
                  [''path'' \<mapsto> ''a.mp3'', ''sentence'' \<mapsto> ''uno'', ''source_file'' \<mapsto> ''dev.tsv'',
                   ''duration_ms'' \<mapsto> ''1000''],
                  [''path'' \<mapsto> ''a.mp3'', ''sentence'' \<mapsto> ''uno'', ''source_file'' \<mapsto> ''dev.tsv'',
                   ''duration_ms'' \<mapsto> ''1001''],
                  [''path'' \<mapsto> ''c.mp3'', ''sentence'' \<mapsto> ''three'', ''source_file'' \<mapsto> ''dev.tsv'',
                   ''duration_ms'' \<mapsto> ''3000'']]\<rparr>"
  by (simp add: merge_durations_def join_def shelf_def rename_durations_def pd_concat_def
        pd_merge_def merge_row_def Let_def)

lemma shelf_run:
  "run shelf shelf_loader
     = Inr (Saved [''out'', ''complete_data.tsv'']
          \<lparr>columns = [''path'', ''sentence'', ''source_file'', ''duration_ms''],
           rows = [[''path'' \<mapsto> ''a.mp3'', ''sentence'' \<mapsto> ''one'', ''source_file'' \<mapsto> ''train.tsv'',
                    ''duration_ms'' \<mapsto> ''1000''],
                   [''path'' \<mapsto> ''b.mp3'', ''sentence'' \<mapsto> ''two'', ''source_file'' \<mapsto> ''train.tsv''],
                   [''path'' \<mapsto> ''c.mp3'', ''sentence'' \<mapsto> ''three'', ''source_file'' \<mapsto> ''dev.tsv'',
                    ''duration_ms'' \<mapsto> ''3000'']]\<rparr>
          \<lparr>art_name = ''data_loading'', art_type = ''dataset'',
           art_file = [''out'', ''complete_data.tsv''], file_path = [''out'', ''complete_data.tsv''],
           size_bytes = 15, num_rows = 3\<rparr>)"
proof -
  have w: "wandb_init shelf = None" "makedirs_output shelf = None" "log_artifact_raises shelf = None"
    by (simp_all add: shelf_def)
  have c: "to_csv shelf df = Inr (concat (map (\<lambda>r. case r ''path'' of None \<Rightarrow> ''-''
                                                       | Some p \<Rightarrow> p) (rows df)))" for df
    by (simp add: shelf_def)
  show ?thesis
    by (simp add: run_def shelf_loader_def w shelf_gather shelf_merge drop_duplicates_def
          save_and_log_def join_def c Let_def)
qed

subsection \<open>The saved table and its artifact\<close>

text \<open>
  Claim C8. When the loader saves a table, no two rows of the saved table at different
  positions have the same \<open>path\<close>; the table is written to \<open>complete_data.tsv\<close> in the
  output directory, and the artifact that is logged holds that path as its file and as
  \<open>file_path\<close>, the length of what was written as \<open>size_bytes\<close>, and the number of rows
  of the saved table as \<open>num_rows\<close>.
\<close>

theorem saved_table_has_distinct_paths:
  assumes "run E self = Inr (Saved out_path df a)"
  shows "(\<forall>i j. i < length (rows df) \<and> j < length (rows df) \<and> i \<noteq> j \<longrightarrow>
            (rows df ! i) ''path'' \<noteq> (rows df ! j) ''path'')
       \<and> out_path = join (self_output_dir self) [''complete_data.tsv'']
       \<and> art_file a = out_path
       \<and> file_path a = out_path
       \<and> (\<exists>written. to_csv E df = Inr written \<and> size_bytes a = length written)
       \<and> num_rows a = length (rows df)"
proof -
  from run_saved [OF assms] obtain dfs merged written where
    df: "df = merged\<lparr>rows := keep_first [] (rows merged)\<rparr>" and
    w: "to_csv E df = Inr written" and
    p: "out_path = join (self_output_dir self) [''complete_data.tsv'']" and
    a: "a = \<lparr>art_name = ''data_loading'', art_type = ''dataset'',
              art_file = out_path, file_path = out_path,
              size_bytes = length written, num_rows = length (rows df)\<rparr>"
    by blast
  have "distinct (map (\<lambda>r. r ''path'') (rows df))"
    using keep_first_distinct [of "[]" "rows merged"] by (simp add: df)
  then have d: "\<forall>i j. i < length (rows df) \<and> j < length (rows df) \<and> i \<noteq> j \<longrightarrow>
                  (rows df ! i) ''path'' \<noteq> (rows df ! j) ''path''"
    by (auto simp: distinct_conv_nth)
  have s: "\<exists>written. to_csv E df = Inr written \<and> size_bytes a = length written"
    using w a by simp
  show ?thesis using d p s a by simp
qed

theorem saved_table_has_distinct_paths_witness:
  "run shelf shelf_loader
     = Inr (Saved [''out'', ''complete_data.tsv'']
          \<lparr>columns = [''path'', ''sentence'', ''source_file'', ''duration_ms''],
            rows = [[''path'' \<mapsto> ''a.mp3'', ''sentence'' \<mapsto> ''one'', ''source_file'' \<mapsto> ''train.tsv'',
                     ''duration_ms'' \<mapsto> ''1000''],
                    [''path'' \<mapsto> ''b.mp3'', ''sentence'' \<mapsto> ''two'', ''source_file'' \<mapsto> ''train.tsv''],
                    [''path'' \<mapsto> ''c.mp3'', ''sentence'' \<mapsto> ''three'', ''source_file'' \<mapsto> ''dev.tsv'',
                     ''duration_ms'' \<mapsto> ''3000'']]\<rparr>
          \<lparr>art_name = ''data_loading'', art_type = ''dataset'',
           art_file = [''out'', ''complete_data.tsv''], file_path = [''out'', ''complete_data.tsv''],
           size_bytes = 15, num_rows = 3\<rparr>)
   \<and> (0 :: nat) < length (rows
          \<lparr>columns = [''path'', ''sentence'', ''source_file'', ''duration_ms''],
            rows = [[''path'' \<mapsto> ''a.mp3'', ''sentence'' \<mapsto> ''one'', ''source_file'' \<mapsto> ''train.tsv'',
                     ''duration_ms'' \<mapsto> ''1000''],
                    [''path'' \<mapsto> ''b.mp3'', ''sentence'' \<mapsto> ''two'', ''source_file'' \<mapsto> ''train.tsv''],
                    [''path'' \<mapsto> ''c.mp3'', ''sentence'' \<mapsto> ''three'', ''source_file'' \<mapsto> ''dev.tsv'',
                     ''duration_ms'' \<mapsto> ''3000'']]\<rparr>)
   \<and> (2 :: nat) < length (rows
          \<lparr>columns = [''path'', ''sentence'', ''source_file'', ''duration_ms''],
            rows = [[''path'' \<mapsto> ''a.mp3'', ''sentence'' \<mapsto> ''one'', ''source_file'' \<mapsto> ''train.tsv'',
                     ''duration_ms'' \<mapsto> ''1000''],
                    [''path'' \<mapsto> ''b.mp3'', ''sentence'' \<mapsto> ''two'', ''source_file'' \<mapsto> ''train.tsv''],
                    [''path'' \<mapsto> ''c.mp3'', ''sentence'' \<mapsto> ''three'', ''source_file'' \<mapsto> ''dev.tsv'',
                     ''duration_ms'' \<mapsto> ''3000'']]\<rparr>)
   \<and> (0 :: nat) \<noteq> 2
   \<and> (rows
          \<lparr>columns = [''path'', ''sentence'', ''source_file'', ''duration_ms''],
            rows = [[''path'' \<mapsto> ''a.mp3'', ''sentence'' \<mapsto> ''one'', ''source_file'' \<mapsto> ''train.tsv'',
                     ''duration_ms'' \<mapsto> ''1000''],
                    [''path'' \<mapsto> ''b.mp3'', ''sentence'' \<mapsto> ''two'', ''source_file'' \<mapsto> ''train.tsv''],
                    [''path'' \<mapsto> ''c.mp3'', ''sentence'' \<mapsto> ''three'', ''source_file'' \<mapsto> ''dev.tsv'',
                     ''duration_ms'' \<mapsto> ''3000'']]\<rparr> ! 0) ''path''
       \<noteq> (rows
          \<lparr>columns = [''path'', ''sentence'', ''source_file'', ''duration_ms''],
            rows = [[''path'' \<mapsto> ''a.mp3'', ''sentence'' \<mapsto> ''one'', ''source_file'' \<mapsto> ''train.tsv'',
                     ''duration_ms'' \<mapsto> ''1000''],
                    [''path'' \<mapsto> ''b.mp3'', ''sentence'' \<mapsto> ''two'', ''source_file'' \<mapsto> ''train.tsv''],
                    [''path'' \<mapsto> ''c.mp3'', ''sentence'' \<mapsto> ''three'', ''source_file'' \<mapsto> ''dev.tsv'',
                     ''duration_ms'' \<mapsto> ''3000'']]\<rparr> ! 2) ''path''
   \<and> [''out'', ''complete_data.tsv''] = join (self_output_dir shelf_loader) [''complete_data.tsv'']
   \<and> (\<exists>written.
         to_csv shelf
           \<lparr>columns = [''path'', ''sentence'', ''source_file'', ''duration_ms''],
            rows = [[''path'' \<mapsto> ''a.mp3'', ''sentence'' \<mapsto> ''one'', ''source_file'' \<mapsto> ''train.tsv'',
                     ''duration_ms'' \<mapsto> ''1000''],
                    [''path'' \<mapsto> ''b.mp3'', ''sentence'' \<mapsto> ''two'', ''source_file'' \<mapsto> ''train.tsv''],
                    [''path'' \<mapsto> ''c.mp3'', ''sentence'' \<mapsto> ''three'', ''source_file'' \<mapsto> ''dev.tsv'',
                     ''duration_ms'' \<mapsto> ''3000'']]\<rparr> = Inr written
         \<and> 15 = length written)"
proof -
  let ?df = "\<lparr>columns = [''path'', ''sentence'', ''source_file'', ''duration_ms''],
            rows = [[''path'' \<mapsto> ''a.mp3'', ''sentence'' \<mapsto> ''one'', ''source_file'' \<mapsto> ''train.tsv'',
                     ''duration_ms'' \<mapsto> ''1000''],
                    [''path'' \<mapsto> ''b.mp3'', ''sentence'' \<mapsto> ''two'', ''source_file'' \<mapsto> ''train.tsv''],
                    [''path'' \<mapsto> ''c.mp3'', ''sentence'' \<mapsto> ''three'', ''source_file'' \<mapsto> ''dev.tsv'',
                     ''duration_ms'' \<mapsto> ''3000'']]\<rparr>"
  note t = saved_table_has_distinct_paths [OF shelf_run]
  have i: "(0 :: nat) < length (rows ?df)" "(2 :: nat) < length (rows ?df)" "(0 :: nat) \<noteq> 2"
    by simp_all
  from t have "\<forall>i j. i < length (rows ?df) \<and> j < length (rows ?df) \<and> i \<noteq> j \<longrightarrow>
                 (rows ?df ! i) ''path'' \<noteq> (rows ?df ! j) ''path''"
    by (rule conjunct1)
  with i have c0: "(rows ?df ! 0) ''path'' \<noteq> (rows ?df ! 2) ''path''"
    by blast
  from t have c1: "[''out'', ''complete_data.tsv'']
                     = join (self_output_dir shelf_loader) [''complete_data.tsv'']"
    by blast
  from t have c2: "\<exists>written. to_csv shelf ?df = Inr written \<and> 15 = length written"
    by simp
  show ?thesis using shelf_run i c0 c1 c2 by blast
qed

subsection \<open>Which of several rows with one path is kept\<close>

text \<open>
  Claim C9. When the loader saves a table, then for every value of \<open>path\<close>: if no file of
  the sequence that is present holds a row with it, the saved table holds none; otherwise
  the saved table holds exactly one row with it, which is the earliest such row of the
  earliest file of the sequence holding one. That row has the name of this file in
  \<open>source_file\<close> and the cells of the row of the file in every other column, the duration
  columns of the merge apart.
\<close>

theorem first_occurrence_is_kept:
  assumes "run E self = Inr (Saved out_path df a)"
  shows "case earliest_row E (self_input_dir self) files_to_include v of
           None \<Rightarrow> filter (\<lambda>r. r ''path'' = v) (rows df) = []
         | Some (filename, r) \<Rightarrow>
             (\<exists>r'. filter (\<lambda>r. r ''path'' = v) (rows df) = [r']
                  \<and> r' ''source_file'' = Some filename
                  \<and> (\<forall>c. c \<notin> {''source_file'', ''duration_ms'', ''duration_ms_x'',
                                ''duration_ms_y''} \<longrightarrow> r' c = r c))"
proof -
  from run_saved [OF assms] obtain dfs merged where
    g: "gather E (self_input_dir self) files_to_include = Inr dfs" and
    m: "merge_durations E (self_input_dir self) (pd_concat dfs) = Inr merged" and
    df: "df = merged\<lparr>rows := keep_first [] (rows merged)\<rparr>"
    by blast
  from merge_durations_first [OF m] obtain h where
    h1: "\<And>l c. c \<notin> {''duration_ms'', ''duration_ms_x'', ''duration_ms_y''} \<Longrightarrow> h l c = l c" and
    h2: "\<And>u. find (\<lambda>r. r ''path'' = u) (rows merged)
               = map_option h (find (\<lambda>r. r ''path'' = u) (rows (pd_concat dfs)))"
    by blast
  have kept: "filter (\<lambda>r. r ''path'' = v) (rows df)
                = (case find (\<lambda>r. r ''path'' = v) (rows merged) of None \<Rightarrow> [] | Some r \<Rightarrow> [r])"
    using keep_first_filter [of v "[]" "rows merged"] by (simp add: df)
  have first: "find (\<lambda>r. r ''path'' = v) (rows merged)
                 = map_option h (map_option (\<lambda>(f, r). r(''source_file'' \<mapsto> f))
                     (earliest_row E (self_input_dir self) files_to_include v))"
    using h2 [of v] find_gather [OF g, of v] by (simp add: pd_concat_def)
  show ?thesis
  proof (cases "earliest_row E (self_input_dir self) files_to_include v")
    case None
    then show ?thesis using kept first by simp
  next
    case (Some fr)
    obtain filename r where fr: "fr = (filename, r)" by (cases fr)
    have k: "filter (\<lambda>r. r ''path'' = v) (rows df) = [h (r(''source_file'' \<mapsto> filename))]"
      using kept first Some fr by simp
    have s: "h (r(''source_file'' \<mapsto> filename)) ''source_file'' = Some filename"
      using h1 [of "''source_file''" "r(''source_file'' \<mapsto> filename)"] by simp
    have o: "h (r(''source_file'' \<mapsto> filename)) c = r c"
      if "c \<notin> {''source_file'', ''duration_ms'', ''duration_ms_x'', ''duration_ms_y''}" for c
      using that h1 [of c "r(''source_file'' \<mapsto> filename)"] by simp
    show ?thesis using Some fr k s o by simp
  qed
qed

theorem first_occurrence_is_kept_witness:
  "run shelf shelf_loader
     = Inr (Saved [''out'', ''complete_data.tsv'']
          \<lparr>columns = [''path'', ''sentence'', ''source_file'', ''duration_ms''],
           rows = [[''path'' \<mapsto> ''a.mp3'', ''sentence'' \<mapsto> ''one'', ''source_file'' \<mapsto> ''train.tsv'',
                    ''duration_ms'' \<mapsto> ''1000''],
                   [''path'' \<mapsto> ''b.mp3'', ''sentence'' \<mapsto> ''two'', ''source_file'' \<mapsto> ''train.tsv''],
                   [''path'' \<mapsto> ''c.mp3'', ''sentence'' \<mapsto> ''three'', ''source_file'' \<mapsto> ''dev.tsv'',
                    ''duration_ms'' \<mapsto> ''3000'']]\<rparr>
          \<lparr>art_name = ''data_loading'', art_type = ''dataset'',
           art_file = [''out'', ''complete_data.tsv''], file_path = [''out'', ''complete_data.tsv''],
           size_bytes = 15, num_rows = 3\<rparr>)
   \<and> earliest_row shelf (self_input_dir shelf_loader) files_to_include (Some ''a.mp3'')
       = Some (''train.tsv'', [''path'' \<mapsto> ''a.mp3'', ''sentence'' \<mapsto> ''one''])
   \<and> (\<exists>r'. filter (\<lambda>r. r ''path'' = Some ''a.mp3'')
              [[''path'' \<mapsto> ''a.mp3'', ''sentence'' \<mapsto> ''one'', ''source_file'' \<mapsto> ''train.tsv'',
                ''duration_ms'' \<mapsto> ''1000''],
               [''path'' \<mapsto> ''b.mp3'', ''sentence'' \<mapsto> ''two'', ''source_file'' \<mapsto> ''train.tsv''],
               [''path'' \<mapsto> ''c.mp3'', ''sentence'' \<mapsto> ''three'', ''source_file'' \<mapsto> ''dev.tsv'',
                ''duration_ms'' \<mapsto> ''3000'']] = [r']
          \<and> r' ''source_file'' = Some ''train.tsv''
          \<and> r' ''sentence'' = Some ''one'')"
proof -
  have e: "earliest_row shelf (self_input_dir shelf_loader) files_to_include (Some ''a.mp3'')
             = Some (''train.tsv'', [''path'' \<mapsto> ''a.mp3'', ''sentence'' \<mapsto> ''one''])"
    by (simp add: shelf_loader_def files_to_include_def join_def shelf_def)
  note t = first_occurrence_is_kept [OF shelf_run, of "Some ''a.mp3''"]
  from t have "\<exists>r'. filter (\<lambda>r. r ''path'' = Some ''a.mp3'')
              [[''path'' \<mapsto> ''a.mp3'', ''sentence'' \<mapsto> ''one'', ''source_file'' \<mapsto> ''train.tsv'',
                ''duration_ms'' \<mapsto> ''1000''],
               [''path'' \<mapsto> ''b.mp3'', ''sentence'' \<mapsto> ''two'', ''source_file'' \<mapsto> ''train.tsv''],
               [''path'' \<mapsto> ''c.mp3'', ''sentence'' \<mapsto> ''three'', ''source_file'' \<mapsto> ''dev.tsv'',
                ''duration_ms'' \<mapsto> ''3000'']] = [r']
          \<and> r' ''source_file'' = Some ''train.tsv''
          \<and> r' ''sentence'' = Some ''one''"
    unfolding e by simp
  then show ?thesis using shelf_run e by blast
qed

end
